theory Spec2Isabelle
  imports Main "HOL-Library.AList" "HOL-Library.Sublist"
begin

section \<open>Data model\<close>

text \<open>
  A YAML document as \<^verbatim>\<open>yaml.safe_load\<close> returns it: \<^verbatim>\<open>None\<close>, a boolean, a string, a
  list or a dict (an association list in document order, keys distinct, as in a dict).
\<close>

datatype yaml = YNull | YBool bool | YStr string | YSeq "yaml list" | YMap "(string \<times> yaml) list"

text \<open>The exceptions of the program; an uncaught one ends the invocation.\<close>

datatype error =
    NameError | CalledProcessError | FileNotFoundError | IsADirectoryError
  | KeyError | TypeError | AttributeError | YAMLError | TemplateError | CryptoError
  | SystemExit

text \<open>
  \<^verbatim>\<open>class Service\<close>. The fields carry the prefix \<open>s_\<close> because \<^verbatim>\<open>start\<close>, \<^verbatim>\<open>stop\<close> and
  \<^verbatim>\<open>crontab\<close> are also functions of the module.
\<close>

record Service =
  s_name :: string
  s_start :: "string list"
  s_stop :: "string list"
  s_quadlets :: "string list"
  s_crontab :: string
  s_backups :: "string list"
  s_secret_files :: "string list"
  s_deployed :: bool
  s_selected :: bool

text \<open>
  \<^verbatim>\<open>argparse.Namespace\<close>: the service list, the verbose flag (the module global
  \<^verbatim>\<open>_verbose\<close> is set from it) and the file argument of \<^verbatim>\<open>fetch\<close>.
\<close>

record namespace =
  services :: "Service list"
  verbose :: bool
  file_arg :: string

text \<open>
  What the program can change outside its own memory: regular files, symbolic links,
  directories, the mount points on which the bucket is mounted, the process environment,
  the installed job table of the scheduler, the commands given to \<^verbatim>\<open>subprocess.run\<close> so far
  (oldest first), a counter that names temporary files, and the lines printed.
\<close>

record world =
  files :: "string \<rightharpoonup> string"
  links :: "string \<rightharpoonup> string"
  dirs :: "string set"
  mounts :: "string list"
  environ :: "string \<rightharpoonup> string"
  table :: string
  cmds :: "string list list"
  tmpn :: nat
  stdout :: "string list"

text \<open>
  The collaborators the program calls and does not define. \<open>cmd_starts\<close> is whether an
  external command can be started at all (its executable is found and may be executed);
  \<open>cmd_ok\<close> is whether a command that starts exits with status 0;
  \<open>yaml_load\<close> is \<^verbatim>\<open>yaml.safe_load\<close> on the text of a file (\<open>None\<close>: a YAML error);
  \<open>template_ok\<close> and \<open>render\<close> are Jinja2 compiling and rendering a template;
  \<open>iglob\<close> expands a pattern; \<open>crypt\<close> is the AWS encryption stream on the whole content
  (\<open>None\<close>: it raises); \<open>bucket\<close> is the content of the S3 bucket by key.
\<close>

record externals =
  cmd_starts :: "string list \<Rightarrow> bool"
  cmd_ok :: "string list \<Rightarrow> bool"
  yaml_load :: "string \<Rightarrow> yaml option"
  yaml_dump :: "yaml \<Rightarrow> string"
  template_ok :: "string \<Rightarrow> string \<Rightarrow> bool"
  render :: "string \<Rightarrow> string \<Rightarrow> yaml \<Rightarrow> string option"
  iglob :: "string \<Rightarrow> string list"
  crypt :: "bool \<Rightarrow> string \<Rightarrow> string option"
  bucket :: "string \<rightharpoonup> string"
  abspath :: "string \<Rightarrow> string"
  expanduser :: "string \<Rightarrow> string"

text \<open>
  A call either raises (\<open>Inl\<close>: the exception and the world as it is at that moment) or
  returns (\<open>Inr\<close>).
\<close>

type_synonym outcome = "(error \<times> world) + world"
type_synonym 'a result = "(error \<times> world) + ('a \<times> world)"

definition CONTAINER_LINK_DIR :: string where
  "CONTAINER_LINK_DIR = ''~/.config/containers/systemd''"

definition SECRET_CFG :: string where
  "SECRET_CFG = ''secrets.yml''"


definition STATE_CFG :: string where
  "STATE_CFG = ''.state.yml''"

section \<open>Operating system primitives\<close>

text \<open>\<^verbatim>\<open>os.path.basename\<close> and \<^verbatim>\<open>os.path.join\<close> (POSIX).\<close>

definition basename :: "string \<Rightarrow> string" where
  "basename p = rev (takeWhile (\<lambda>c. c \<noteq> CHR ''/'') (rev p))"

definition join :: "string \<Rightarrow> string \<Rightarrow> string" where
  "join a b =
     (if b \<noteq> [] \<and> hd b = CHR ''/'' then b
      else if a = [] \<or> last a = CHR ''/'' then a @ b
      else a @ ''/'' @ b)"

text \<open>
  A path below a mount point of the bucket reads the bucket; \<open>under\<close> gives the key of such
  a path.
\<close>

fun under :: "string list \<Rightarrow> string \<Rightarrow> string option" where
  "under [] p = None"
| "under (m # ms) p =
     (if prefix (m @ ''/'') p then Some (drop (length m + 1) p) else under ms p)"

definition read_file :: "externals \<Rightarrow> world \<Rightarrow> string \<Rightarrow> string option" where
  "read_file X w p = (case under (mounts w) p of Some k \<Rightarrow> bucket X k | None \<Rightarrow> files w p)"

text \<open>
  \<^verbatim>\<open>tempfile\<close>: the \<open>n\<close>-th temporary name of the invocation; the names differ from one
  another, which is all that is used of them. \<^verbatim>\<open>mkdtemp\<close> creates a
  directory, \<^verbatim>\<open>NamedTemporaryFile\<close> an empty file; leaving the \<^verbatim>\<open>with\<close> block of a
  \<^verbatim>\<open>TemporaryDirectory\<close> removes the directory and what is below it, that of a
  \<^verbatim>\<open>NamedTemporaryFile\<close> removes the file.
\<close>

definition tmpname :: "nat \<Rightarrow> string" where
  "tmpname n = ''/tmp/tmp'' @ replicate n (CHR ''x'')"

definition mkdtemp :: "world \<Rightarrow> string \<times> world" where
  "mkdtemp w =
     (tmpname (tmpn w), w\<lparr>dirs := insert (tmpname (tmpn w)) (dirs w), tmpn := Suc (tmpn w)\<rparr>)"

definition rmtree :: "string \<Rightarrow> world \<Rightarrow> world" where
  "rmtree d w =
     w\<lparr>files := (\<lambda>p. if prefix (d @ ''/'') p then None else files w p), dirs := dirs w - {d}\<rparr>"

definition NamedTemporaryFile :: "world \<Rightarrow> string \<times> world" where
  "NamedTemporaryFile w =
     (tmpname (tmpn w), w\<lparr>files := (files w)(tmpname (tmpn w) \<mapsto> []), tmpn := Suc (tmpn w)\<rparr>)"

definition unlink_tmp :: "string \<Rightarrow> world \<Rightarrow> world" where
  "unlink_tmp f w = w\<lparr>files := (files w)(f := None)\<rparr>"

text \<open>\<^verbatim>\<open>f.write(s)\<close> on a file opened for writing: the text is appended.\<close>

text \<open>A file opened with mode \<^verbatim>\<open>w\<close> and written once: its content is replaced.\<close>

definition put_file :: "string \<Rightarrow> string \<Rightarrow> world \<Rightarrow> world" where
  "put_file f s w = w\<lparr>files := (files w)(f \<mapsto> s)\<rparr>"

definition append_file :: "string \<Rightarrow> string \<Rightarrow> world \<Rightarrow> world" where
  "append_file f s w =
     w\<lparr>files := (files w)(f \<mapsto> (case files w f of None \<Rightarrow> s | Some c \<Rightarrow> c @ s))\<rparr>"

text \<open>
  \<^verbatim>\<open>os.remove\<close>: removes a file or a link, and raises on a directory and on a path that
  does not exist. \<^verbatim>\<open>os.rmdir\<close> removes a directory.
\<close>

definition os_remove :: "string \<Rightarrow> world \<Rightarrow> outcome" where
  "os_remove p w =
     (if files w p \<noteq> None \<or> links w p \<noteq> None
        then Inr (w\<lparr>files := (files w)(p := None), links := (links w)(p := None)\<rparr>)
      else if p \<in> dirs w then Inl (IsADirectoryError, w)
      else Inl (FileNotFoundError, w))"

definition os_rmdir :: "string \<Rightarrow> world \<Rightarrow> outcome" where
  "os_rmdir p w =
     (if p \<in> dirs w then Inr (w\<lparr>dirs := dirs w - {p}\<rparr>) else Inl (FileNotFoundError, w))"

section \<open>Process runner\<close>

text \<open>
  What a command that exits with status 0 does to the world: \<^verbatim>\<open>crontab FILE\<close> replaces the
  job table by the content of the file (\<^verbatim>\<open>crontab -n FILE\<close> only checks it),
  \<^verbatim>\<open>s3fs ... BUCKET MOUNTPOINT\<close> mounts the bucket on its last argument, and
  \<^verbatim>\<open>fusermount -u MOUNTPOINT\<close> unmounts it. The units of systemd and the objects that
  rsync copies into the bucket are not part of the world.
\<close>

definition cmd_effect :: "string list \<Rightarrow> world \<Rightarrow> world" where
  "cmd_effect cmd w =
     (case cmd of
        [] \<Rightarrow> w
      | prog # argv \<Rightarrow>
          if prog = ''crontab'' \<and> length argv = 1
            then w\<lparr>table := (case files w (hd argv) of Some c \<Rightarrow> c | None \<Rightarrow> table w)\<rparr>
          else if prog = ''s3fs'' \<and> argv \<noteq> []
            then w\<lparr>mounts := last argv # mounts w\<rparr>
          else if prog = ''fusermount'' \<and> length argv = 2 \<and> hd argv = ''-u''
            then w\<lparr>mounts := removeAll (last argv) (mounts w)\<rparr>
          else w)"

text \<open>
  \<^verbatim>\<open>run(cmd, checked)\<close>: the command is given to \<^verbatim>\<open>subprocess.run\<close> and logged. A command
  that cannot be started makes \<^verbatim>\<open>subprocess.run\<close> raise (\<^verbatim>\<open>FileNotFoundError\<close>, or another
  \<^verbatim>\<open>OSError\<close>, which the model does not tell apart); \<^verbatim>\<open>run\<close> has no handler, so the
  exception leaves \<^verbatim>\<open>run\<close> whatever \<open>checked\<close> is. For a command that starts, a non-zero
  status raises \<^verbatim>\<open>CalledProcessError\<close> when \<open>checked\<close>, and otherwise the result says
  whether the status was 0. A command that fails is taken to have changed nothing. Every
  caller leaves \<^verbatim>\<open>env\<close> at its default, and the verbose flag only decides where the output
  of the command goes.
\<close>

definition logged :: "string list list \<Rightarrow> world \<Rightarrow> world" where
  "logged cs w = w\<lparr>cmds := cmds w @ cs\<rparr>"

definition run :: "externals \<Rightarrow> string list \<Rightarrow> bool \<Rightarrow> world \<Rightarrow> bool result" where
  "run X cmd checked w =
     (if \<not> cmd_starts X cmd then Inl (FileNotFoundError, logged [cmd] w)
      else
        (let ok = cmd_ok X cmd;
             w' = logged [cmd] (if ok then cmd_effect cmd w else w)
         in if checked \<and> \<not> ok then Inl (CalledProcessError, w') else Inr (ok, w')))"

definition systemctl :: "externals \<Rightarrow> string list \<Rightarrow> bool \<Rightarrow> world \<Rightarrow> bool result" where
  "systemctl X args checked w = run X ([''systemctl'', ''--user''] @ args) checked w"

section \<open>Reload, start, stop, restart\<close>

definition reload :: "externals \<Rightarrow> namespace \<Rightarrow> world \<Rightarrow> outcome" where
  "reload X args w =
     (case systemctl X [''daemon-reload''] True w of
        Inl e \<Rightarrow> Inl e
      | Inr (_, w') \<Rightarrow> Inr w')"

text \<open>The loop of \<^verbatim>\<open>start\<close> over \<^verbatim>\<open>args.services\<close>.\<close>

fun start_loop :: "externals \<Rightarrow> Service list \<Rightarrow> world \<Rightarrow> outcome" where
  "start_loop X [] w = Inr w"
| "start_loop X (s # ss) w =
     (if s_selected s \<and> s_start s \<noteq> [] then
        (case systemctl X (''start'' # s_start s) True w of
           Inl e \<Rightarrow> Inl e
         | Inr (_, w') \<Rightarrow> start_loop X ss w')
      else start_loop X ss w)"

definition start :: "externals \<Rightarrow> namespace \<Rightarrow> world \<Rightarrow> outcome" where
  "start X args w = start_loop X (services args) w"

text \<open>The loop of \<^verbatim>\<open>stop\<close> over \<^verbatim>\<open>args.services\<close>.\<close>

fun stop_loop :: "externals \<Rightarrow> Service list \<Rightarrow> world \<Rightarrow> outcome" where
  "stop_loop X [] w = Inr w"
| "stop_loop X (s # ss) w =
     (if s_selected s \<and> s_stop s \<noteq> [] then
        (case systemctl X (''stop'' # s_stop s) True w of
           Inl e \<Rightarrow> Inl e
         | Inr (_, w') \<Rightarrow> stop_loop X ss w')
      else stop_loop X ss w)"

definition stop :: "externals \<Rightarrow> namespace \<Rightarrow> world \<Rightarrow> outcome" where
  "stop X args w = stop_loop X (services args) w"

definition restart :: "externals \<Rightarrow> namespace \<Rightarrow> world \<Rightarrow> outcome" where
  "restart X args w =
     (case stop X args w of
        Inl e \<Rightarrow> Inl e
      | Inr w' \<Rightarrow> start X args w')"

section \<open>YAML values\<close>

text \<open>\<^verbatim>\<open>d[k]\<close>, \<^verbatim>\<open>d.get(k, default)\<close>, and a run of subscripts \<^verbatim>\<open>d[a][b][c]\<close>.\<close>

fun subscript :: "yaml \<Rightarrow> string \<Rightarrow> error + yaml" where
  "subscript (YMap m) k = (case map_of m k of Some v \<Rightarrow> Inr v | None \<Rightarrow> Inl KeyError)"
| "subscript _ k = Inl TypeError"


fun subscripts :: "yaml \<Rightarrow> string list \<Rightarrow> error + yaml" where
  "subscripts d [] = Inr d"
| "subscripts d (k # ks) =
     (case subscript d k of Inl e \<Rightarrow> Inl e | Inr v \<Rightarrow> subscripts v ks)"


text \<open>
  A value that must be a string: an environment variable and an argument of a command
  accept nothing else.
\<close>

fun as_str :: "yaml \<Rightarrow> error + string" where
  "as_str (YStr s) = Inr s"
| "as_str _ = Inl TypeError"



section \<open>Configuration, secrets and state\<close>


definition write_state :: "externals \<Rightarrow> namespace \<Rightarrow> world \<Rightarrow> world" where
  "write_state X args w =
     put_file STATE_CFG
       (yaml_dump X
          (YMap [(''deployed'', YMap (map (\<lambda>s. (s_name s, YBool (s_deployed s))) (services args)))]))
       w"

definition load_secrets :: "externals \<Rightarrow> world \<Rightarrow> error + yaml" where
  "load_secrets X w =
     (case read_file X w SECRET_CFG of
        None \<Rightarrow> Inl FileNotFoundError
      | Some text \<Rightarrow>
          (case yaml_load X text of
             None \<Rightarrow> Inl YAMLError
           | Some secret_entries \<Rightarrow> subscript secret_entries ''secrets''))"





section \<open>Schedule regeneration and secret rendering\<close>

text \<open>The loop of \<^verbatim>\<open>crontab\<close> that writes the entries into the temporary file.\<close>

fun write_jobs :: "string \<Rightarrow> Service list \<Rightarrow> world \<Rightarrow> world" where
  "write_jobs f [] w = w"
| "write_jobs f (s # ss) w =
     (if s_deployed s \<and> s_crontab s \<noteq> [] then write_jobs f ss (append_file f (s_crontab s) w)
      else write_jobs f ss w)"

text \<open>
  \<^verbatim>\<open>crontab\<close>: the temporary file is removed when the \<^verbatim>\<open>with\<close> block is left, also by an
  exception of one of the two commands.
\<close>

definition crontab :: "externals \<Rightarrow> namespace \<Rightarrow> world \<Rightarrow> outcome" where
  "crontab X args w =
     (let (tmpcrontab, w0) = NamedTemporaryFile w;
          w1 = write_jobs tmpcrontab (services args) w0
      in case run X [''crontab'', ''-n'', tmpcrontab] True w1 of
           Inl (e, w2) \<Rightarrow> Inl (e, unlink_tmp tmpcrontab w2)
         | Inr (_, w2) \<Rightarrow>
             (case run X [''crontab'', tmpcrontab] True w2 of
                Inl (e, w3) \<Rightarrow> Inl (e, unlink_tmp tmpcrontab w3)
              | Inr (_, w3) \<Rightarrow> Inr (unlink_tmp tmpcrontab w3)))"

text \<open>
  \<^verbatim>\<open>load_templates\<close>: the inner loop over the secret files of one service, the outer loop
  over the deployed services, then the compilation of every template read. The dict
  \<^verbatim>\<open>templates\<close> is an association list: an assignment to a key that exists replaces its
  value in place.
\<close>

fun read_templates ::
  "externals \<Rightarrow> world \<Rightarrow> string list \<Rightarrow> (string \<times> string) list \<Rightarrow> error + (string \<times> string) list"
where
  "read_templates X w [] templates = Inr templates"
| "read_templates X w (path # paths) templates =
     (case read_file X w (path @ ''.jinja'') of
        None \<Rightarrow> Inl FileNotFoundError
      | Some template \<Rightarrow> read_templates X w paths (AList.update path template templates))"

fun templates_loop ::
  "externals \<Rightarrow> world \<Rightarrow> Service list \<Rightarrow> (string \<times> string) list \<Rightarrow> error + (string \<times> string) list"
where
  "templates_loop X w [] templates = Inr templates"
| "templates_loop X w (s # ss) templates =
     (if s_deployed s then
        (case read_templates X w (s_secret_files s) templates of
           Inl e \<Rightarrow> Inl e
         | Inr templates' \<Rightarrow> templates_loop X w ss templates')
      else templates_loop X w ss templates)"

definition load_templates :: "externals \<Rightarrow> namespace \<Rightarrow> world \<Rightarrow> error + (string \<times> string) list" where
  "load_templates X args w =
     (case templates_loop X w (services args) [] of
        Inl e \<Rightarrow> Inl e
      | Inr templates \<Rightarrow>
          if list_all (\<lambda>(name, template). template_ok X name template) templates
          then Inr templates else Inl TemplateError)"

text \<open>
  The loop of \<^verbatim>\<open>secrets\<close>: each target is opened for writing, which empties it, and the
  rendered template is written into it.
\<close>

fun render_loop :: "externals \<Rightarrow> yaml \<Rightarrow> (string \<times> string) list \<Rightarrow> world \<Rightarrow> outcome" where
  "render_loop X secs [] w = Inr w"
| "render_loop X secs ((name, template) # rest) w =
     (case render X name template secs of
        None \<Rightarrow> Inl (TemplateError, put_file name [] w)
      | Some out \<Rightarrow> render_loop X secs rest (put_file name out (put_file name [] w)))"

definition secrets :: "externals \<Rightarrow> namespace \<Rightarrow> world \<Rightarrow> outcome" where
  "secrets X args w =
     (case load_secrets X w of
        Inl e \<Rightarrow> Inl (e, w)
      | Inr secs \<Rightarrow>
          (case load_templates X args w of
             Inl e \<Rightarrow> Inl (e, w)
           | Inr templates \<Rightarrow> render_loop X secs templates w))"

section \<open>Deploy and undeploy\<close>

text \<open>
  The statement that links one quadlet, given the \<^verbatim>\<open>source\<close> and the \<^verbatim>\<open>destination\<close>
  that the loop has computed.
\<close>

type_synonym link_stmt = "string \<Rightarrow> string \<Rightarrow> world \<Rightarrow> outcome"

text \<open>
  The statement of the source is \<^verbatim>\<open>os.symlink(fullpath, dst)\<close>. Neither \<^verbatim>\<open>fullpath\<close> nor
  \<^verbatim>\<open>dst\<close> is bound, in the function or in the module: evaluating the arguments raises
  \<^verbatim>\<open>NameError\<close> before \<^verbatim>\<open>os.symlink\<close> is called.
\<close>

definition symlink_stmt :: link_stmt where
  "symlink_stmt source destination w = Inl (NameError, w)"

text \<open>The loop of \<^verbatim>\<open>deploy\<close> over the quadlets of one service.\<close>

fun link_quadlets :: "link_stmt \<Rightarrow> externals \<Rightarrow> string \<Rightarrow> string list \<Rightarrow> world \<Rightarrow> outcome" where
  "link_quadlets L X linkdir [] w = Inr w"
| "link_quadlets L X linkdir (quadlet # quadlets) w =
     (let source = abspath X quadlet;
          filename = basename quadlet;
          destination = join linkdir filename
      in case L source destination w of
           Inl e \<Rightarrow> Inl e
         | Inr w' \<Rightarrow> link_quadlets L X linkdir quadlets w')"

text \<open>
  The loop of \<^verbatim>\<open>deploy\<close> over the services. The services are objects that the loop
  changes; the function returns them as they are after it.
\<close>

fun deploy_loop ::
  "link_stmt \<Rightarrow> externals \<Rightarrow> string \<Rightarrow> Service list \<Rightarrow> world \<Rightarrow> (Service list) result"
where
  "deploy_loop L X linkdir [] w = Inr ([], w)"
| "deploy_loop L X linkdir (s # ss) w =
     (if s_selected s \<and> \<not> s_deployed s then
        (case link_quadlets L X linkdir (s_quadlets s) w of
           Inl e \<Rightarrow> Inl e
         | Inr w1 \<Rightarrow>
             (case deploy_loop L X linkdir ss w1 of
                Inl e \<Rightarrow> Inl e
              | Inr (ss', w2) \<Rightarrow> Inr (s\<lparr>s_deployed := True\<rparr> # ss', w2)))
      else
        (case deploy_loop L X linkdir ss w of
           Inl e \<Rightarrow> Inl e
         | Inr (ss', w2) \<Rightarrow> Inr (s # ss', w2)))"

text \<open>\<^verbatim>\<open>deploy\<close>, with the statement that links a quadlet as a parameter.\<close>

definition deploy_with :: "link_stmt \<Rightarrow> externals \<Rightarrow> namespace \<Rightarrow> world \<Rightarrow> namespace result" where
  "deploy_with L X args w =
     (let linkdir = expanduser X CONTAINER_LINK_DIR
      in case deploy_loop L X linkdir (services args) w of
           Inl e \<Rightarrow> Inl e
         | Inr (ss, w1) \<Rightarrow>
             (let args1 = args\<lparr>services := ss\<rparr>
              in case crontab X args1 w1 of
                   Inl e \<Rightarrow> Inl e
                 | Inr w2 \<Rightarrow>
                     (case secrets X args1 w2 of
                        Inl e \<Rightarrow> Inl e
                      | Inr w3 \<Rightarrow>
                          (case reload X args1 (write_state X args1 w3) of
                             Inl e \<Rightarrow> Inl e
                           | Inr w5 \<Rightarrow> Inr (args1, w5)))))"

text \<open>\<^verbatim>\<open>deploy\<close> as the source has it.\<close>

definition deploy :: "externals \<Rightarrow> namespace \<Rightarrow> world \<Rightarrow> namespace result" where
  "deploy X args w = deploy_with symlink_stmt X args w"

text \<open>
  The loop of \<^verbatim>\<open>undeploy\<close> over the quadlets of one service: a link that is not there is
  passed over, any other exception of \<^verbatim>\<open>os.remove\<close> propagates.
\<close>

fun remove_quadlets :: "string \<Rightarrow> string list \<Rightarrow> world \<Rightarrow> outcome" where
  "remove_quadlets linkdir [] w = Inr w"
| "remove_quadlets linkdir (quadlet # quadlets) w =
     (let filename = basename quadlet;
          destination = join linkdir filename
      in case os_remove destination w of
           Inl (e, w') \<Rightarrow>
             (if e = FileNotFoundError then remove_quadlets linkdir quadlets w' else Inl (e, w'))
         | Inr w' \<Rightarrow> remove_quadlets linkdir quadlets w')"

fun undeploy_loop :: "string \<Rightarrow> Service list \<Rightarrow> world \<Rightarrow> (Service list) result" where
  "undeploy_loop linkdir [] w = Inr ([], w)"
| "undeploy_loop linkdir (s # ss) w =
     (if s_selected s \<and> s_deployed s then
        (case remove_quadlets linkdir (s_quadlets s) w of
           Inl e \<Rightarrow> Inl e
         | Inr w1 \<Rightarrow>
             (case undeploy_loop linkdir ss w1 of
                Inl e \<Rightarrow> Inl e
              | Inr (ss', w2) \<Rightarrow> Inr (s\<lparr>s_deployed := False\<rparr> # ss', w2)))
      else
        (case undeploy_loop linkdir ss w of
           Inl e \<Rightarrow> Inl e
         | Inr (ss', w2) \<Rightarrow> Inr (s # ss', w2)))"

definition undeploy :: "externals \<Rightarrow> namespace \<Rightarrow> world \<Rightarrow> namespace result" where
  "undeploy X args w =
     (case stop X args w of
        Inl e \<Rightarrow> Inl e
      | Inr w0 \<Rightarrow>
          (let linkdir = expanduser X CONTAINER_LINK_DIR
           in case undeploy_loop linkdir (services args) w0 of
                Inl e \<Rightarrow> Inl e
              | Inr (ss, w1) \<Rightarrow>
                  (let args1 = args\<lparr>services := ss\<rparr>
                   in case crontab X args1 w1 of
                        Inl e \<Rightarrow> Inl e
                      | Inr w2 \<Rightarrow>
                          (case reload X args1 (write_state X args1 w2) of
                             Inl e \<Rightarrow> Inl e
                           | Inr w4 \<Rightarrow> Inr (args1, w4)))))"

section \<open>Status\<close>

text \<open>A dict of the list \<^verbatim>\<open>statuses\<close>.\<close>

record status_row =
  r_name :: string
  r_deployed :: string
  r_running :: string

text \<open>The first loop of \<^verbatim>\<open>status\<close>: one dict per service of \<^verbatim>\<open>args.services\<close>.\<close>

fun status_loop :: "externals \<Rightarrow> Service list \<Rightarrow> world \<Rightarrow> (status_row list) result" where
  "status_loop X [] w = Inr ([], w)"
| "status_loop X (s # ss) w =
     (if s_deployed s then
        (if s_start s \<noteq> [] then
           (case systemctl X (''is-active'' # s_start s) False w of
              Inl e \<Rightarrow> Inl e
            | Inr (active, w1) \<Rightarrow>
                (case status_loop X ss w1 of
                   Inl e \<Rightarrow> Inl e
                 | Inr (rows, w2) \<Rightarrow>
                     Inr (\<lparr>r_name = s_name s, r_deployed = ''yes'',
                           r_running = (if active then ''yes'' else ''no'')\<rparr> # rows, w2)))
         else
           (case status_loop X ss w of
              Inl e \<Rightarrow> Inl e
            | Inr (rows, w2) \<Rightarrow>
                Inr (\<lparr>r_name = s_name s, r_deployed = ''yes'', r_running = ''yes''\<rparr> # rows, w2)))
      else
        (case status_loop X ss w of
           Inl e \<Rightarrow> Inl e
         | Inr (rows, w2) \<Rightarrow>
             Inr (\<lparr>r_name = s_name s, r_deployed = ''no'', r_running = ''no''\<rparr> # rows, w2)))"

text \<open>The format \<^verbatim>\<open>{text:<{width}}\<close>: padded with spaces on the right.\<close>

definition ljust :: "nat \<Rightarrow> string \<Rightarrow> string" where
  "ljust width s = s @ replicate (width - length s) (CHR '' '')"

definition status :: "externals \<Rightarrow> namespace \<Rightarrow> world \<Rightarrow> outcome" where
  "status X args w =
     (case status_loop X (services args) w of
        Inl e \<Rightarrow> Inl e
      | Inr (statuses, w1) \<Rightarrow>
          (let longest = fold (\<lambda>s n. if length (s_name s) > n then length (s_name s) else n)
                           (services args) 0
           in Inr (w1\<lparr>stdout := stdout w1 @
                     (ljust longest ''SERVICE'' @ '' DEPLOYED RUNNING'') #
                     map (\<lambda>r. ljust longest (r_name r) @ '' '' @ ljust (length ''DEPLOYED'') (r_deployed r)
                                @ '' '' @ r_running r) statuses\<rparr>)))"

section \<open>Backup and fetch\<close>

text \<open>
  \<^verbatim>\<open>xcrypt\<close>: the source is opened first, then the destination, which empties it; then
  the stream is written.
\<close>

definition xcrypt :: "externals \<Rightarrow> bool \<Rightarrow> string \<Rightarrow> string \<Rightarrow> world \<Rightarrow> outcome" where
  "xcrypt X encrypt source dest w =
     (case read_file X w source of
        None \<Rightarrow> Inl (FileNotFoundError, w)
      | Some plain \<Rightarrow>
          (case crypt X encrypt plain of
             None \<Rightarrow> Inl (CryptoError, put_file dest [] w)
           | Some out \<Rightarrow> Inr (put_file dest out (put_file dest [] w))))"

definition mount_bucket :: "externals \<Rightarrow> bool \<Rightarrow> string \<Rightarrow> string \<Rightarrow> world \<Rightarrow> string result" where
  "mount_bucket X verb bucket_name region w =
     (let (mountpoint, w1) = mkdtemp w;
          cmd = [''s3fs'', ''-o'', ''use_sse'', ''-o'', ''endpoint='' @ region,
                 ''-o'', ''url=https://s3.'' @ region @ ''.amazonaws.com'']
                @ (if verb then [''-o'', ''dbglevel=info'', ''-o'', ''curldbg''] else [])
                @ [bucket_name, mountpoint]
      in case run X cmd True w1 of
           Inl e \<Rightarrow> Inl e
         | Inr (_, w2) \<Rightarrow> Inr (mountpoint, w2))"

definition unmount_bucket :: "externals \<Rightarrow> string \<Rightarrow> world \<Rightarrow> outcome" where
  "unmount_bucket X mountpoint w =
     (case run X [''fusermount'', ''-u'', mountpoint] True w of
        Inl e \<Rightarrow> Inl e
      | Inr (_, w1) \<Rightarrow> os_rmdir mountpoint w1)"

text \<open>\<^verbatim>\<open>os.environ[k] = v\<close> and \<^verbatim>\<open>del os.environ[k]\<close>.\<close>

definition set_environ :: "string \<Rightarrow> yaml \<Rightarrow> world \<Rightarrow> outcome" where
  "set_environ k v w =
     (case as_str v of
        Inl e \<Rightarrow> Inl (e, w)
      | Inr s \<Rightarrow> Inr (w\<lparr>environ := (environ w)(k \<mapsto> s)\<rparr>))"

definition del_environ :: "string \<Rightarrow> world \<Rightarrow> outcome" where
  "del_environ k w =
     (if environ w k = None then Inl (KeyError, w)
      else Inr (w\<lparr>environ := (environ w)(k := None)\<rparr>))"

text \<open>
  The two assignments to \<^verbatim>\<open>os.environ\<close> with which \<^verbatim>\<open>backup\<close> and \<^verbatim>\<open>fetch\<close> begin, after
  \<^verbatim>\<open>load_secrets\<close>.
\<close>

definition export_credentials :: "yaml \<Rightarrow> world \<Rightarrow> outcome" where
  "export_credentials secs w =
     (case subscripts secs [''apis'', ''aws'', ''key''] of
        Inl e \<Rightarrow> Inl (e, w)
      | Inr k \<Rightarrow>
          (case set_environ ''AWS_ACCESS_KEY_ID'' k w of
             Inl e \<Rightarrow> Inl e
           | Inr w1 \<Rightarrow>
               (case subscripts secs [''apis'', ''aws'', ''secret''] of
                  Inl e \<Rightarrow> Inl (e, w1)
                | Inr sk \<Rightarrow> set_environ ''AWS_SECRET_ACCESS_KEY'' sk w1)))"

text \<open>
  The three statements that follow in both functions: the encryption client, the key
  provider (its key id is read from the secrets) and \<^verbatim>\<open>mount_bucket\<close>. The bucket and the
  region are strings; a bucket of another type raises \<^verbatim>\<open>TypeError\<close> when the command is
  run, and the model raises it for such a region too.
\<close>

definition open_bucket :: "externals \<Rightarrow> bool \<Rightarrow> yaml \<Rightarrow> world \<Rightarrow> string result" where
  "open_bucket X verb secs w =
     (case subscripts secs [''services'', ''backup'', ''key_arn''] of
        Inl e \<Rightarrow> Inl (e, w)
      | Inr key_arn \<Rightarrow>
          (case subscripts secs [''services'', ''backup'', ''bucket''] of
             Inl e \<Rightarrow> Inl (e, w)
           | Inr b \<Rightarrow>
               (case subscripts secs [''services'', ''backup'', ''region''] of
                  Inl e \<Rightarrow> Inl (e, w)
                | Inr r \<Rightarrow>
                    (case as_str r of
                       Inl e \<Rightarrow> Inl (e, w)
                     | Inr region \<Rightarrow>
                         (case as_str b of
                            Inl e \<Rightarrow> Inl (e, snd (mkdtemp w))
                          | Inr bucket_name \<Rightarrow> mount_bucket X verb bucket_name region w)))))"

text \<open>
  The two inner loops of \<^verbatim>\<open>backup\<close>, over the patterns of a service and over the paths
  that a pattern matches, as one loop over all the paths in that order.
\<close>

fun encrypt_files :: "externals \<Rightarrow> string \<Rightarrow> string list \<Rightarrow> world \<Rightarrow> outcome" where
  "encrypt_files X tmpdir [] w = Inr w"
| "encrypt_files X tmpdir (source # sources) w =
     (let dest = join tmpdir (basename source)
      in case xcrypt X True source dest w of
           Inl e \<Rightarrow> Inl e
         | Inr w' \<Rightarrow> encrypt_files X tmpdir sources w')"

text \<open>
  The body of the loop of \<^verbatim>\<open>backup\<close> for a deployed service with backups; the scratch
  directory is removed when the \<^verbatim>\<open>with\<close> block is left, also by an exception.
\<close>

definition backup_service :: "externals \<Rightarrow> bool \<Rightarrow> string \<Rightarrow> Service \<Rightarrow> world \<Rightarrow> outcome" where
  "backup_service X verb mountpoint s w =
     (let (tmpdir, w1) = mkdtemp w
      in case encrypt_files X tmpdir (concat (map (iglob X) (s_backups s))) w1 of
           Inl (e, w2) \<Rightarrow> Inl (e, rmtree tmpdir w2)
         | Inr w2 \<Rightarrow>
             (let cmd = [''rsync'', ''--recursive'', ''--delete-during'', ''--whole-file'', ''--fsync'']
                        @ (if verb then [''--verbose''] else [])
                        @ [tmpdir @ ''/'', join mountpoint (s_name s)]
              in case run X cmd True w2 of
                   Inl (e, w3) \<Rightarrow> Inl (e, rmtree tmpdir w3)
                 | Inr (_, w3) \<Rightarrow> Inr (rmtree tmpdir w3)))"

fun backup_loop :: "externals \<Rightarrow> bool \<Rightarrow> string \<Rightarrow> Service list \<Rightarrow> world \<Rightarrow> outcome" where
  "backup_loop X verb mountpoint [] w = Inr w"
| "backup_loop X verb mountpoint (s # ss) w =
     (if s_deployed s \<and> s_backups s \<noteq> [] then
        (case backup_service X verb mountpoint s w of
           Inl e \<Rightarrow> Inl e
         | Inr w' \<Rightarrow> backup_loop X verb mountpoint ss w')
      else backup_loop X verb mountpoint ss w)"

text \<open>The last three statements of \<^verbatim>\<open>backup\<close> and of \<^verbatim>\<open>fetch\<close>.\<close>

definition close_bucket :: "externals \<Rightarrow> string \<Rightarrow> world \<Rightarrow> outcome" where
  "close_bucket X mountpoint w =
     (case unmount_bucket X mountpoint w of
        Inl e \<Rightarrow> Inl e
      | Inr w1 \<Rightarrow>
          (case del_environ ''AWS_ACCESS_KEY_ID'' w1 of
             Inl e \<Rightarrow> Inl e
           | Inr w2 \<Rightarrow> del_environ ''AWS_SECRET_ACCESS_KEY'' w2))"

definition backup :: "externals \<Rightarrow> namespace \<Rightarrow> world \<Rightarrow> outcome" where
  "backup X args w =
     (case load_secrets X w of
        Inl e \<Rightarrow> Inl (e, w)
      | Inr secs \<Rightarrow>
          (case export_credentials secs w of
             Inl e \<Rightarrow> Inl e
           | Inr w1 \<Rightarrow>
               (case open_bucket X (verbose args) secs w1 of
                  Inl e \<Rightarrow> Inl e
                | Inr (mountpoint, w2) \<Rightarrow>
                    (case backup_loop X (verbose args) mountpoint (services args) w2 of
                       Inl e \<Rightarrow> Inl e
                     | Inr w3 \<Rightarrow> close_bucket X mountpoint w3))))"

fun fetch_loop :: "externals \<Rightarrow> string \<Rightarrow> string \<Rightarrow> Service list \<Rightarrow> world \<Rightarrow> outcome" where
  "fetch_loop X mountpoint fname [] w = Inr w"
| "fetch_loop X mountpoint fname (s # ss) w =
     (if s_selected s then
        (let source = join (join mountpoint (s_name s)) fname;
             dest = fname
         in case xcrypt X False source dest w of
              Inl e \<Rightarrow> Inl e
            | Inr w' \<Rightarrow> fetch_loop X mountpoint fname ss w')
      else fetch_loop X mountpoint fname ss w)"

definition fetch :: "externals \<Rightarrow> namespace \<Rightarrow> world \<Rightarrow> outcome" where
  "fetch X args w =
     (case load_secrets X w of
        Inl e \<Rightarrow> Inl (e, w)
      | Inr secs \<Rightarrow>
          (case export_credentials secs w of
             Inl e \<Rightarrow> Inl e
           | Inr w1 \<Rightarrow>
               (case open_bucket X (verbose args) secs w1 of
                  Inl e \<Rightarrow> Inl e
                | Inr (mountpoint, w2) \<Rightarrow>
                    (case fetch_loop X mountpoint (file_arg args) (services args) w2 of
                       Inl e \<Rightarrow> Inl e
                     | Inr w3 \<Rightarrow> close_bucket X mountpoint w3))))"

section \<open>Entry point\<close>








section \<open>Reading outcomes and stating the properties\<close>

text \<open>The exception a call has raised, if any, and the world it leaves.\<close>

definition raised :: "(error \<times> world) + 'a \<Rightarrow> error option" where
  "raised r = (case r of Inl (e, w) \<Rightarrow> Some e | Inr x \<Rightarrow> None)"

definition final :: "outcome \<Rightarrow> world" where
  "final r = (case r of Inl (e, w) \<Rightarrow> w | Inr w \<Rightarrow> w)"

definition final_of :: "'a result \<Rightarrow> world" where
  "final_of r = (case r of Inl (e, w) \<Rightarrow> w | Inr (x, w) \<Rightarrow> w)"

text \<open>
  A checked command succeeds when it starts and exits with status 0; otherwise \<^verbatim>\<open>run\<close>
  raises \<open>run_error\<close>.
\<close>

definition succeeds :: "externals \<Rightarrow> string list \<Rightarrow> bool" where
  "succeeds X cmd = (cmd_starts X cmd \<and> cmd_ok X cmd)"

definition run_error :: "externals \<Rightarrow> string list \<Rightarrow> error" where
  "run_error X cmd = (if cmd_starts X cmd then CalledProcessError else FileNotFoundError)"

text \<open>The commands that \<^verbatim>\<open>stop\<close> and \<^verbatim>\<open>start\<close> issue for a service.\<close>

definition stop_cmd :: "Service \<Rightarrow> string list" where
  "stop_cmd s = ''systemctl'' # ''--user'' # ''stop'' # s_stop s"

definition start_cmd :: "Service \<Rightarrow> string list" where
  "start_cmd s = ''systemctl'' # ''--user'' # ''start'' # s_start s"

text \<open>The elements of a list up to and including the first that is not \<open>ok\<close>.\<close>

definition failing :: "('a \<Rightarrow> bool) \<Rightarrow> 'a list \<Rightarrow> 'a list" where
  "failing ok xs = takeWhile ok xs @ take 1 (dropWhile ok xs)"

text \<open>
  The job table of the specification: the entries of the deployed services that have one,
  concatenated in the order of the configuration.
\<close>

definition job_table :: "Service list \<Rightarrow> string" where
  "job_table ss = concat (map s_crontab (filter (\<lambda>s. s_deployed s \<and> s_crontab s \<noteq> []) ss))"

text \<open>The document that \<^verbatim>\<open>write_state\<close> dumps.\<close>

definition state_doc :: "Service list \<Rightarrow> yaml" where
  "state_doc ss = YMap [(''deployed'', YMap (map (\<lambda>s. (s_name s, YBool (s_deployed s))) ss))]"

text \<open>
  The report of claim C9 in the words of the specification: the query that \<^verbatim>\<open>status\<close>
  sends for a service, the row it reports, the queries it sends in all, and the lines it
  prints.
\<close>

definition is_active_cmd :: "Service \<Rightarrow> string list" where
  "is_active_cmd s = ''systemctl'' # ''--user'' # ''is-active'' # s_start s"

definition status_report :: "externals \<Rightarrow> Service \<Rightarrow> status_row" where
  "status_report X s =
     \<lparr>r_name = s_name s,
      r_deployed = (if s_deployed s then ''yes'' else ''no''),
      r_running =
        (if \<not> s_deployed s then ''no''
         else if s_start s = [] then ''yes''
         else if cmd_ok X (is_active_cmd s) then ''yes'' else ''no'')\<rparr>"

definition status_queries :: "Service list \<Rightarrow> string list list" where
  "status_queries ss = map is_active_cmd (filter (\<lambda>s. s_deployed s \<and> s_start s \<noteq> []) ss)"

definition status_lines :: "nat \<Rightarrow> status_row list \<Rightarrow> string list" where
  "status_lines longest rows =
     (ljust longest ''SERVICE'' @ '' DEPLOYED RUNNING'') #
     map (\<lambda>r. ljust longest (r_name r) @ '' '' @ ljust (length ''DEPLOYED'') (r_deployed r)
                @ '' '' @ r_running r) rows"

text \<open>
  What the steps between mounting and unmounting leave as it is: the mounts, the
  environment, and the temporary directories made before the step.
\<close>

definition session_kept :: "world \<Rightarrow> world \<Rightarrow> bool" where
  "session_kept w w' =
     (mounts w' = mounts w \<and> environ w' = environ w \<and> tmpn w \<le> tmpn w' \<and>
      (\<forall>k<tmpn w. (tmpname k \<in> dirs w') = (tmpname k \<in> dirs w)))"

section \<open>Example configurations\<close>

definition web :: Service where
  "web = \<lparr>s_name = ''web'', s_start = [''web.service''], s_stop = [''web.service''],
          s_quadlets = [''web.container''], s_crontab = ''@daily web-job;'',
          s_backups = [''/srv/web.db''], s_secret_files = [''web.env''],
          s_deployed = False, s_selected = False\<rparr>"

definition db :: Service where
  "db = \<lparr>s_name = ''db'', s_start = [''db.service''], s_stop = [''db.service''],
         s_quadlets = [], s_crontab = ''@hourly db-job;'',
         s_backups = [], s_secret_files = [],
         s_deployed = False, s_selected = False\<rparr>"

definition batch :: Service where
  "batch = \<lparr>s_name = ''batch'', s_start = [], s_stop = [],
         s_quadlets = [], s_crontab = [],
         s_backups = [], s_secret_files = [],
         s_deployed = False, s_selected = False\<rparr>"

definition secrets_doc :: yaml where
  "secrets_doc =
     YMap [(''apis'', YMap [(''aws'', YMap [(''key'', YStr ''AKIA''), (''secret'', YStr ''s3cr3t'')])]),
           (''services'', YMap [(''backup'', YMap [(''key_arn'', YStr ''arn:key''),
                                                   (''bucket'', YStr ''vault''),
                                                   (''region'', YStr ''eu-west-1'')])])]"

definition services_doc :: yaml where
  "services_doc =
     YMap [(''services'',
            YMap [(''web'', YMap [(''start'', YSeq [YStr ''web.service'']),
                                  (''quadlets'', YSeq [YStr ''web.container''])]),
                  (''db'', YMap [(''crontab'', YStr ''@hourly db-job;'')])])]"

text \<open>A parser that knows three texts, and an empty file, which holds an empty document.\<close>

definition demo_load :: "string \<Rightarrow> yaml option" where
  "demo_load text =
     (if text = ''SECRETS'' then Some (YMap [(''secrets'', secrets_doc)])
      else if text = ''SERVICES'' then Some services_doc
      else if text = ''STATE'' then Some (YMap [(''deployed'', YMap [(''web'', YBool True)])])
      else if text = [] then Some YNull
      else None)"

text \<open>Collaborators with which every command succeeds.\<close>

definition X_ok :: externals where
  "X_ok = \<lparr>cmd_starts = (\<lambda>cmd. True),
           cmd_ok = (\<lambda>cmd. True),
           yaml_load = demo_load,
           yaml_dump = (\<lambda>d. ''STATE''),
           template_ok = (\<lambda>name template. True),
           render = (\<lambda>name template secs. Some template),
           iglob = (\<lambda>pattern. [pattern]),
           crypt = (\<lambda>encrypt plain. Some (rev plain)),
           bucket = [''web/report.txt'' \<mapsto> ''txet''],
           abspath = (\<lambda>p. ''/opt/vaire/'' @ p),
           expanduser = (\<lambda>p. ''/home/u'' @ drop 1 p)\<rparr>"

text \<open>A world with the two configuration files and one file to back up.\<close>

definition w_init :: world where
  "w_init = \<lparr>files = [''secrets.yml'' \<mapsto> ''SECRETS'', ''services.yml'' \<mapsto> ''SERVICES'',
                      ''/srv/web.db'' \<mapsto> ''rows''],
            links = Map.empty, dirs = {}, mounts = [], environ = Map.empty,
            table = [], cmds = [], tmpn = 0, stdout = []\<rparr>"

text \<open>The stop command of \<^verbatim>\<open>web\<close> fails; \<^verbatim>\<open>web\<close> and \<^verbatim>\<open>db\<close> are selected.\<close>

definition X_stop_fails :: externals where
  "X_stop_fails = X_ok\<lparr>cmd_ok := (\<lambda>cmd. cmd \<noteq> [''systemctl'', ''--user'', ''stop'', ''web.service''])\<rparr>"

definition args_restart :: namespace where
  "args_restart = \<lparr>services = [web\<lparr>s_selected := True\<rparr>, db\<lparr>s_selected := True\<rparr>],
                   verbose = False, file_arg = []\<rparr>"


text \<open>
  Three services, none selected by \<^verbatim>\<open>status\<close>; in \<open>X_inactive\<close> every command exits with a
  non-zero status.
\<close>

definition args_status :: namespace where
  "args_status =
     \<lparr>services = [web\<lparr>s_deployed := True\<rparr>, batch, batch\<lparr>s_name := ''cache'', s_deployed := True\<rparr>],
      verbose = False, file_arg = []\<rparr>"

definition X_inactive :: externals where
  "X_inactive = X_ok\<lparr>cmd_ok := (\<lambda>cmd. False)\<rparr>"

text \<open>Collaborators with which \<^verbatim>\<open>systemctl\<close> cannot be started.\<close>

definition X_no_systemctl :: externals where
  "X_no_systemctl = X_ok\<lparr>cmd_starts := (\<lambda>cmd. hd cmd \<noteq> ''systemctl'')\<rparr>"

text \<open>\<^verbatim>\<open>db\<close> and \<^verbatim>\<open>web\<close> deployed; \<^verbatim>\<open>web\<close> lists the secret file \<^verbatim>\<open>web.env\<close>.\<close>

definition args_secrets :: namespace where
  "args_secrets = \<lparr>services = [db\<lparr>s_deployed := True\<rparr>, web\<lparr>s_deployed := True\<rparr>],
                   verbose = False, file_arg = []\<rparr>"

text \<open>\<^verbatim>\<open>deploy web db\<close> with neither deployed; \<^verbatim>\<open>web\<close> has a quadlet, \<^verbatim>\<open>db\<close> has none.\<close>

definition args_deploy :: namespace where
  "args_deploy = \<lparr>services = [web\<lparr>s_selected := True\<rparr>, db\<lparr>s_selected := True\<rparr>],
                  verbose = False, file_arg = []\<rparr>"

text \<open>\<^verbatim>\<open>deploy db web\<close> with \<^verbatim>\<open>db\<close> deployed already and \<^verbatim>\<open>web\<close> not.\<close>

definition args_redeploy :: namespace where
  "args_redeploy =
     \<lparr>services = [db\<lparr>s_selected := True, s_deployed := True\<rparr>, web\<lparr>s_selected := True\<rparr>],
      verbose = False, file_arg = []\<rparr>"

text \<open>A world in which a stale link occupies the destination of the quadlet of \<^verbatim>\<open>web\<close>.\<close>

definition w_stale :: world where
  "w_stale = w_init\<lparr>links := [''/home/u/.config/containers/systemd/web.container'' \<mapsto> ''/old/web.container'']\<rparr>"

text \<open>
  \<^verbatim>\<open>deploy db\<close> with \<^verbatim>\<open>cache\<close> deployed, and \<^verbatim>\<open>undeploy db\<close> with both deployed; neither
  service has a quadlet or a secret file, both have a job.
\<close>

definition cache :: Service where
  "cache = batch\<lparr>s_name := ''cache'', s_crontab := ''@daily cache-job;'', s_deployed := True\<rparr>"

definition args_deploy_db :: namespace where
  "args_deploy_db = \<lparr>services = [cache, db\<lparr>s_selected := True\<rparr>], verbose = False, file_arg = []\<rparr>"

text \<open>
  \<^verbatim>\<open>deploy db\<close> with \<^verbatim>\<open>web\<close> deployed, in a world whose state file records \<^verbatim>\<open>web\<close> as
  deployed and that has no template for the secret file of \<^verbatim>\<open>web\<close>; collaborators with
  which every \<^verbatim>\<open>crontab\<close> command exits with a non-zero status.
\<close>

definition args_deploy_env :: namespace where
  "args_deploy_env =
     \<lparr>services = [web\<lparr>s_deployed := True\<rparr>, db\<lparr>s_selected := True\<rparr>], verbose = False, file_arg = []\<rparr>"

definition w_state :: world where
  "w_state = w_init\<lparr>files := (files w_init)(''.state.yml'' \<mapsto> ''STATE'')\<rparr>"

definition X_crontab_fails :: externals where
  "X_crontab_fails = X_ok\<lparr>cmd_ok := (\<lambda>cmd. hd cmd \<noteq> ''crontab'')\<rparr>"

definition args_undeploy_db :: namespace where
  "args_undeploy_db =
     \<lparr>services = [cache, db\<lparr>s_selected := True, s_deployed := True\<rparr>], verbose = False, file_arg = []\<rparr>"

text \<open>
  \<^verbatim>\<open>backup\<close> with \<^verbatim>\<open>web\<close> deployed, \<^verbatim>\<open>fetch web report.txt\<close> and
  \<^verbatim>\<open>fetch web missing.txt\<close>; collaborators with which rsync fails.
\<close>

definition args_backup :: namespace where
  "args_backup = \<lparr>services = [web\<lparr>s_deployed := True\<rparr>, db], verbose = False, file_arg = []\<rparr>"

definition args_fetch :: namespace where
  "args_fetch = \<lparr>services = [web\<lparr>s_selected := True\<rparr>, db], verbose = False,
                 file_arg = ''report.txt''\<rparr>"

definition args_fetch_missing :: namespace where
  "args_fetch_missing = args_fetch\<lparr>file_arg := ''missing.txt''\<rparr>"

definition X_rsync_fails :: externals where
  "X_rsync_fails = X_ok\<lparr>cmd_ok := (\<lambda>cmd. hd cmd \<noteq> ''rsync'')\<rparr>"

section \<open>Properties of the process runner\<close>

lemma logged_logged: "logged b (logged a w) = logged (a @ b) w"
  by (simp add: logged_def)

lemma logged_Nil: "logged [] w = w"
  by (simp add: logged_def)

lemma systemctl_effect: "cmd_effect (''systemctl'' # args) w = w"
  by (simp add: cmd_effect_def)

lemma systemctl_run:
  "systemctl X args checked w =
     (if \<not> cmd_starts X (''systemctl'' # ''--user'' # args)
      then Inl (FileNotFoundError, logged [''systemctl'' # ''--user'' # args] w)
      else if checked \<and> \<not> cmd_ok X (''systemctl'' # ''--user'' # args)
      then Inl (CalledProcessError, logged [''systemctl'' # ''--user'' # args] w)
      else Inr (cmd_ok X (''systemctl'' # ''--user'' # args), logged [''systemctl'' # ''--user'' # args] w))"
  by (simp add: systemctl_def run_def systemctl_effect Let_def)

lemma systemctl_checked:
  "systemctl X args True w =
     (if succeeds X (''systemctl'' # ''--user'' # args)
      then Inr (True, logged [''systemctl'' # ''--user'' # args] w)
      else Inl (run_error X (''systemctl'' # ''--user'' # args),
                logged [''systemctl'' # ''--user'' # args] w))"
  by (simp add: systemctl_run succeeds_def run_error_def)

lemma stop_loop_step:
  "stop_loop X (s # ss) w =
     (if s_selected s \<and> s_stop s \<noteq> [] then
        (if succeeds X (stop_cmd s) then stop_loop X ss (logged [stop_cmd s] w)
         else Inl (run_error X (stop_cmd s), logged [stop_cmd s] w))
      else stop_loop X ss w)"
  by (simp add: systemctl_checked stop_cmd_def)

lemma start_loop_step:
  "start_loop X (s # ss) w =
     (if s_selected s \<and> s_start s \<noteq> [] then
        (if succeeds X (start_cmd s) then start_loop X ss (logged [start_cmd s] w)
         else Inl (run_error X (start_cmd s), logged [start_cmd s] w))
      else start_loop X ss w)"
  by (simp add: systemctl_checked start_cmd_def)

lemma stop_loop_cmds:
  "stop_loop X ss w =
     (if list_all (\<lambda>s. succeeds X (stop_cmd s)) (filter (\<lambda>s. s_selected s \<and> s_stop s \<noteq> []) ss)
      then Inr (logged (map stop_cmd (filter (\<lambda>s. s_selected s \<and> s_stop s \<noteq> []) ss)) w)
      else Inl (run_error X (stop_cmd (hd (dropWhile (\<lambda>s. succeeds X (stop_cmd s))
                       (filter (\<lambda>s. s_selected s \<and> s_stop s \<noteq> []) ss)))),
             logged (map stop_cmd (failing (\<lambda>s. succeeds X (stop_cmd s))
                       (filter (\<lambda>s. s_selected s \<and> s_stop s \<noteq> []) ss))) w))"
proof (induction ss arbitrary: w)
  case Nil
  show ?case by (simp add: logged_Nil)
next
  case (Cons s ss)
  show ?case
    unfolding stop_loop_step Cons.IH
    by (simp add: failing_def logged_logged)
qed

lemma start_loop_cmds:
  "start_loop X ss w =
     (if list_all (\<lambda>s. succeeds X (start_cmd s)) (filter (\<lambda>s. s_selected s \<and> s_start s \<noteq> []) ss)
      then Inr (logged (map start_cmd (filter (\<lambda>s. s_selected s \<and> s_start s \<noteq> []) ss)) w)
      else Inl (run_error X (start_cmd (hd (dropWhile (\<lambda>s. succeeds X (start_cmd s))
                       (filter (\<lambda>s. s_selected s \<and> s_start s \<noteq> []) ss)))),
             logged (map start_cmd (failing (\<lambda>s. succeeds X (start_cmd s))
                       (filter (\<lambda>s. s_selected s \<and> s_start s \<noteq> []) ss))) w))"
proof (induction ss arbitrary: w)
  case Nil
  show ?case by (simp add: logged_Nil)
next
  case (Cons s ss)
  show ?case
    unfolding start_loop_step Cons.IH
    by (simp add: failing_def logged_logged)
qed

section \<open>Restart\<close>

text \<open>
  Claim C6, as the code has it. \<^verbatim>\<open>restart\<close> is \<^verbatim>\<open>stop\<close> and then \<^verbatim>\<open>start\<close> over the same
  selection, and every command of both is checked. It issues the stop command of each
  selected service that has stop targets, in configuration order; the first stop command
  that does not succeed raises there (\<^verbatim>\<open>CalledProcessError\<close> for a non-zero status, the
  exception of \<^verbatim>\<open>subprocess.run\<close> for a command that cannot be started): no later service
  is stopped and no start command is issued. When every stop command succeeds it issues
  the start commands in the same way, and the first that does not succeed raises.
\<close>

theorem restart_stops_then_starts:
  "restart X args w =
     (if \<not> list_all (\<lambda>s. succeeds X (stop_cmd s))
            (filter (\<lambda>s. s_selected s \<and> s_stop s \<noteq> []) (services args))
      then Inl (run_error X (stop_cmd (hd (dropWhile (\<lambda>s. succeeds X (stop_cmd s))
                       (filter (\<lambda>s. s_selected s \<and> s_stop s \<noteq> []) (services args))))),
             logged (map stop_cmd (failing (\<lambda>s. succeeds X (stop_cmd s))
                       (filter (\<lambda>s. s_selected s \<and> s_stop s \<noteq> []) (services args)))) w)
      else if \<not> list_all (\<lambda>s. succeeds X (start_cmd s))
            (filter (\<lambda>s. s_selected s \<and> s_start s \<noteq> []) (services args))
      then Inl (run_error X (start_cmd (hd (dropWhile (\<lambda>s. succeeds X (start_cmd s))
                       (filter (\<lambda>s. s_selected s \<and> s_start s \<noteq> []) (services args))))),
             logged (map stop_cmd (filter (\<lambda>s. s_selected s \<and> s_stop s \<noteq> []) (services args))
                     @ map start_cmd (failing (\<lambda>s. succeeds X (start_cmd s))
                         (filter (\<lambda>s. s_selected s \<and> s_start s \<noteq> []) (services args)))) w)
      else Inr (logged (map stop_cmd (filter (\<lambda>s. s_selected s \<and> s_stop s \<noteq> []) (services args))
                        @ map start_cmd (filter (\<lambda>s. s_selected s \<and> s_start s \<noteq> []) (services args))) w))"
  by (simp add: restart_def stop_def start_def stop_loop_cmds start_loop_cmds logged_logged)

text \<open>
  The claim C6 as stated fails: with \<^verbatim>\<open>web\<close> and \<^verbatim>\<open>db\<close> selected and the stop command of
  \<^verbatim>\<open>web\<close> failing, \<^verbatim>\<open>restart\<close> raises after that one command; nothing is started.
\<close>

theorem restart_best_effort_counterexample:
  "raised (restart X_stop_fails args_restart w_init) = Some CalledProcessError \<and>
   cmds (final (restart X_stop_fails args_restart w_init)) =
     [[''systemctl'', ''--user'', ''stop'', ''web.service'']]"
  by (simp add: restart_def stop_def start_def systemctl_run X_stop_fails_def X_ok_def
      args_restart_def web_def db_def w_init_def raised_def final_def logged_def)

section \<open>Loading the deployment state\<close>








section \<open>The status report\<close>

lemma status_loop_step:
  "status_loop X (s # ss) w =
     (if s_deployed s \<and> s_start s \<noteq> [] \<and> \<not> cmd_starts X (is_active_cmd s)
      then Inl (FileNotFoundError, logged [is_active_cmd s] w)
      else
        (case status_loop X ss (if s_deployed s \<and> s_start s \<noteq> [] then logged [is_active_cmd s] w else w) of
           Inl e \<Rightarrow> Inl e
         | Inr (rows, w2) \<Rightarrow> Inr (status_report X s # rows, w2)))"
  by (simp add: systemctl_run is_active_cmd_def status_report_def split: sum.splits)

lemma status_loop_rows:
  "status_loop X ss w =
     (if list_all (cmd_starts X) (status_queries ss)
      then Inr (map (status_report X) ss, logged (status_queries ss) w)
      else Inl (FileNotFoundError, logged (failing (cmd_starts X) (status_queries ss)) w))"
proof (induction ss arbitrary: w)
  case Nil
  show ?case by (simp add: status_queries_def logged_Nil)
next
  case (Cons s ss)
  show ?case
    unfolding status_loop_step Cons.IH
    by (simp add: status_queries_def failing_def logged_logged)
qed

text \<open>
  Claim C9, as the code has it. \<^verbatim>\<open>status\<close> builds one row for each service of
  \<^verbatim>\<open>args.services\<close>, in order and whatever is selected: \<open>status_report\<close> says \<open>no\<close>/\<open>no\<close> for a
  service that is not deployed, \<open>yes\<close> and whether its \<^verbatim>\<open>is-active\<close> query exits with status
  0 for a deployed service with start targets (a non-zero status is reported as not
  running), \<open>yes\<close>/\<open>yes\<close> for a deployed service without. The only commands it runs are the
  queries of the deployed services with start targets. When every query can be started it
  does not raise and prints the header and the rows; when one cannot be started, the
  exception of \<^verbatim>\<open>subprocess.run\<close> leaves \<^verbatim>\<open>status\<close> at that query and nothing is printed.
\<close>

theorem status_reports_every_service:
  "status_loop X (services args) w =
     (if list_all (cmd_starts X) (status_queries (services args))
      then Inr (map (status_report X) (services args), logged (status_queries (services args)) w)
      else Inl (FileNotFoundError,
                logged (failing (cmd_starts X) (status_queries (services args))) w)) \<and>
   raised (status X args w) =
     (if list_all (cmd_starts X) (status_queries (services args)) then None
      else Some FileNotFoundError) \<and>
   cmds (final (status X args w)) =
     cmds w @ (if list_all (cmd_starts X) (status_queries (services args))
               then status_queries (services args)
               else failing (cmd_starts X) (status_queries (services args))) \<and>
   stdout (final (status X args w)) =
     (if list_all (cmd_starts X) (status_queries (services args))
      then stdout w @ status_lines (fold (\<lambda>s n. if length (s_name s) > n then length (s_name s) else n)
                                     (services args) 0)
                        (map (status_report X) (services args))
      else stdout w)"
  by (simp add: status_def status_loop_rows raised_def final_def logged_def status_lines_def Let_def)

text \<open>
  The rows for a deployed service with a start target, one that is not deployed and a
  deployed one without start targets, when the query exits with status 0 and when it does
  not.
\<close>

theorem status_reports_every_service_witness:
  "status_loop X_ok (services args_status) w_init =
     Inr ([\<lparr>r_name = ''web'', r_deployed = ''yes'', r_running = ''yes''\<rparr>,
           \<lparr>r_name = ''batch'', r_deployed = ''no'', r_running = ''no''\<rparr>,
           \<lparr>r_name = ''cache'', r_deployed = ''yes'', r_running = ''yes''\<rparr>],
          logged [[''systemctl'', ''--user'', ''is-active'', ''web.service'']] w_init) \<and>
   status_loop X_inactive (services args_status) w_init =
     Inr ([\<lparr>r_name = ''web'', r_deployed = ''yes'', r_running = ''no''\<rparr>,
           \<lparr>r_name = ''batch'', r_deployed = ''no'', r_running = ''no''\<rparr>,
           \<lparr>r_name = ''cache'', r_deployed = ''yes'', r_running = ''yes''\<rparr>],
          logged [[''systemctl'', ''--user'', ''is-active'', ''web.service'']] w_init) \<and>
   raised (status X_inactive args_status w_init) = None"
  using status_reports_every_service[of X_ok args_status w_init]
        status_reports_every_service[of X_inactive args_status w_init]
  by (simp add: status_report_def status_queries_def is_active_cmd_def args_status_def
      web_def batch_def X_ok_def X_inactive_def)

text \<open>
  The claim C9 as stated fails: \<^verbatim>\<open>systemctl\<close> cannot be started; the query for \<^verbatim>\<open>web\<close> is
  not reported as not running, \<^verbatim>\<open>status\<close> raises and prints no row, for \<^verbatim>\<open>batch\<close> and
  \<^verbatim>\<open>cache\<close> neither.
\<close>

theorem status_query_counterexample:
  "raised (status X_no_systemctl args_status w_init) = Some FileNotFoundError \<and>
   stdout (final (status X_no_systemctl args_status w_init)) = [] \<and>
   cmds (final (status X_no_systemctl args_status w_init)) =
     [[''systemctl'', ''--user'', ''is-active'', ''web.service'']]"
  by (simp add: status_def systemctl_def run_def logged_def X_no_systemctl_def X_ok_def
      args_status_def web_def batch_def w_init_def raised_def final_def)

section \<open>Missing secret templates\<close>

lemma read_templates_error:
  "read_templates X w paths templates = Inl e \<Longrightarrow> e = FileNotFoundError"
  by (induction paths arbitrary: templates) (auto split: option.splits)

lemma read_templates_missing:
  "p \<in> set paths \<Longrightarrow> read_file X w (p @ ''.jinja'') = None \<Longrightarrow>
   read_templates X w paths templates = Inl FileNotFoundError"
  by (induction paths arbitrary: templates) (auto split: option.splits)

lemma templates_loop_missing:
  "list_ex (\<lambda>s. s_deployed s \<and> list_ex (\<lambda>p. read_file X w (p @ ''.jinja'') = None) (s_secret_files s)) ss \<Longrightarrow>
   templates_loop X w ss templates = Inl FileNotFoundError"
proof (induction ss arbitrary: templates)
  case Nil
  then show ?case by simp
next
  case (Cons a ss)
  show ?case
  proof (cases "s_deployed a \<and> list_ex (\<lambda>p. read_file X w (p @ ''.jinja'') = None) (s_secret_files a)")
    case True
    then obtain p where "p \<in> set (s_secret_files a)" "read_file X w (p @ ''.jinja'') = None"
      by (auto simp: list_ex_iff)
    then have "read_templates X w (s_secret_files a) templates = Inl FileNotFoundError"
      by (rule read_templates_missing)
    with True show ?thesis by simp
  next
    case False
    with Cons.prems have "list_ex (\<lambda>s. s_deployed s \<and> list_ex (\<lambda>p. read_file X w (p @ ''.jinja'') = None) (s_secret_files s)) ss"
      by simp
    from Cons.IH[OF this]
    have ih: "\<And>T. templates_loop X w ss T = Inl FileNotFoundError" .
    show ?thesis
    proof (cases "s_deployed a")
      case d: True
      show ?thesis
      proof (cases "read_templates X w (s_secret_files a) templates")
        case (Inl e)
        with d read_templates_error[OF Inl] show ?thesis by simp
      next
        case (Inr T)
        with d ih show ?thesis by simp
      qed
    next
      case d: False
      with ih show ?thesis by simp
    qed
  qed
qed

text \<open>
  Claim C8. If a deployed service lists a secret file \<open>p\<close> and the template
  \<open>p @ ''.jinja''\<close> cannot be read, \<^verbatim>\<open>load_templates\<close> raises \<^verbatim>\<open>FileNotFoundError\<close> and
  \<^verbatim>\<open>secrets\<close> raises in the world it was called in: no file has been written, for this
  service or for any other. (The exception is that of \<^verbatim>\<open>load_secrets\<close> when that one fails
  first.)
\<close>

theorem secrets_missing_template_aborts:
  assumes "s \<in> set (services args)" and "s_deployed s"
      and "p \<in> set (s_secret_files s)" and "read_file X w (p @ ''.jinja'') = None"
  shows "load_templates X args w = Inl FileNotFoundError \<and>
         secrets X args w =
           Inl (case load_secrets X w of Inl e \<Rightarrow> e | Inr secs \<Rightarrow> FileNotFoundError, w)"
proof -
  have "templates_loop X w (services args) [] = Inl FileNotFoundError"
    using assms by (intro templates_loop_missing) (auto simp: list_ex_iff)
  then have lt: "load_templates X args w = Inl FileNotFoundError"
    by (simp add: load_templates_def)
  then show ?thesis
    by (simp add: secrets_def split: sum.splits)
qed

text \<open>The template of \<^verbatim>\<open>web.env\<close> is missing: nothing is rendered, for \<^verbatim>\<open>db\<close> neither.\<close>

theorem secrets_missing_template_aborts_witness:
  "web\<lparr>s_deployed := True\<rparr> \<in> set (services args_secrets) \<and>
   s_deployed (web\<lparr>s_deployed := True\<rparr>) \<and>
   ''web.env'' \<in> set (s_secret_files (web\<lparr>s_deployed := True\<rparr>)) \<and>
   read_file X_ok w_init ''web.env.jinja'' = None \<and>
   load_secrets X_ok w_init = Inr secrets_doc \<and>
   secrets X_ok args_secrets w_init = Inl (FileNotFoundError, w_init)"
proof -
  have 1: "web\<lparr>s_deployed := True\<rparr> \<in> set (services args_secrets)"
    by (simp add: args_secrets_def)
  have 2: "s_deployed (web\<lparr>s_deployed := True\<rparr>)" by simp
  have 3: "''web.env'' \<in> set (s_secret_files (web\<lparr>s_deployed := True\<rparr>))"
    by (simp add: web_def)
  have 4: "read_file X_ok w_init (''web.env'' @ ''.jinja'') = None"
    by (simp add: read_file_def w_init_def)
  have 5: "load_secrets X_ok w_init = Inr secrets_doc"
    by (simp add: load_secrets_def read_file_def w_init_def SECRET_CFG_def X_ok_def demo_load_def)
  from secrets_missing_template_aborts[OF 1 2 3 4] 5
  have 6: "secrets X_ok args_secrets w_init = Inl (FileNotFoundError, w_init)" by simp
  from 1 2 3 4 5 6 show ?thesis by simp
qed

section \<open>The link statement of deploy\<close>

lemma link_quadlets_symlink_stmt:
  "link_quadlets symlink_stmt X linkdir quadlets w =
     (if quadlets = [] then Inr w else Inl (NameError, w))"
  by (cases quadlets) (simp_all add: symlink_stmt_def)

text \<open>
  Services that are not selected or are deployed already are passed over: no link
  statement runs for them and they stay as they are.
\<close>

lemma deploy_loop_already_deployed:
  "list_all (\<lambda>s. \<not> (s_selected s \<and> \<not> s_deployed s)) ss \<Longrightarrow>
   deploy_loop L X linkdir ss w = Inr (ss, w)"
  by (induction ss) auto

lemma deploy_loop_link_failure:
  assumes "deploy_loop L X linkdir pre w = Inr (pre', w1)"
      and "s_selected s" and "\<not> s_deployed s"
      and "link_quadlets L X linkdir (s_quadlets s) w1 = Inl (e, w2)"
  shows "deploy_loop L X linkdir (pre @ s # post) w = Inl (e, w2)"
  using assms(1)
proof (induction pre arbitrary: w pre')
  case Nil
  with assms(2-4) show ?case by simp
next
  case (Cons a pre)
  show ?case
  proof (cases "s_selected a \<and> \<not> s_deployed a")
    case True
    with Cons.prems obtain wa rest where
      la: "link_quadlets L X linkdir (s_quadlets a) w = Inr wa" and
      r: "deploy_loop L X linkdir pre wa = Inr (rest, w1)"
      by (auto split: sum.splits)
    from Cons.IH[OF r] True la show ?thesis by simp
  next
    case False
    with Cons.prems obtain rest where r: "deploy_loop L X linkdir pre w = Inr (rest, w1)"
      by (auto split: sum.splits)
    from Cons.IH[OF r] False show ?thesis by auto
  qed
qed

text \<open>
  Claim C5, as the code has it. The link statement is any statement \<open>L\<close>; the one of the
  source is \<open>symlink_stmt\<close>. When the services before \<open>s\<close> have been processed and the link
  statement raises for a quadlet of the selected, not yet deployed service \<open>s\<close>, \<^verbatim>\<open>deploy\<close>
  raises that exception in the world of that moment: the services after \<open>s\<close> are not
  processed, and the job table, the secret files, the state file and the daemon are left
  as they are.
\<close>

theorem deploy_link_failure_aborts:
  assumes "deploy_loop L X (expanduser X CONTAINER_LINK_DIR) pre w = Inr (pre', w1)"
      and "s_selected s" and "\<not> s_deployed s"
      and "link_quadlets L X (expanduser X CONTAINER_LINK_DIR) (s_quadlets s) w1 = Inl (e, w2)"
  shows "deploy_with L X (args\<lparr>services := pre @ s # post\<rparr>) w = Inl (e, w2)"
  using deploy_loop_link_failure[OF assms, of post]
  by (simp add: deploy_with_def)

text \<open>
  With the statement of the source: \<^verbatim>\<open>db\<close> (no quadlet) is processed, the quadlet of \<^verbatim>\<open>web\<close>
  raises \<^verbatim>\<open>NameError\<close>, and \<^verbatim>\<open>batch\<close> is not reached.
\<close>

theorem deploy_link_failure_aborts_witness:
  "deploy_loop symlink_stmt X_ok (expanduser X_ok CONTAINER_LINK_DIR) [db\<lparr>s_selected := True\<rparr>] w_init =
     Inr ([db\<lparr>s_selected := True, s_deployed := True\<rparr>], w_init) \<and>
   s_selected (web\<lparr>s_selected := True\<rparr>) \<and>
   \<not> s_deployed (web\<lparr>s_selected := True\<rparr>) \<and>
   link_quadlets symlink_stmt X_ok (expanduser X_ok CONTAINER_LINK_DIR)
     (s_quadlets (web\<lparr>s_selected := True\<rparr>)) w_init = Inl (NameError, w_init) \<and>
   deploy_with symlink_stmt X_ok
     (args_deploy\<lparr>services := [db\<lparr>s_selected := True\<rparr>] @ web\<lparr>s_selected := True\<rparr> # [batch\<lparr>s_selected := True\<rparr>]\<rparr>)
     w_init = Inl (NameError, w_init)"
proof -
  have 1: "deploy_loop symlink_stmt X_ok (expanduser X_ok CONTAINER_LINK_DIR) [db\<lparr>s_selected := True\<rparr>] w_init =
     Inr ([db\<lparr>s_selected := True, s_deployed := True\<rparr>], w_init)"
    by (simp add: db_def link_quadlets_symlink_stmt symlink_stmt_def)
  have 2: "s_selected (web\<lparr>s_selected := True\<rparr>)" by simp
  have 3: "\<not> s_deployed (web\<lparr>s_selected := True\<rparr>)" by (simp add: web_def)
  have 4: "link_quadlets symlink_stmt X_ok (expanduser X_ok CONTAINER_LINK_DIR)
     (s_quadlets (web\<lparr>s_selected := True\<rparr>)) w_init = Inl (NameError, w_init)"
    by (simp add: web_def link_quadlets_symlink_stmt symlink_stmt_def)
  from deploy_link_failure_aborts[OF 1 2 3 4] 1 2 3 4 show ?thesis by blast
qed

text \<open>
  The claim C5 as stated fails: a stale link occupies the destination of the quadlet of
  \<^verbatim>\<open>web\<close>; \<^verbatim>\<open>deploy web db\<close> raises at that quadlet and does not go on to \<^verbatim>\<open>db\<close>: no
  command is run and no state file is written.
\<close>

theorem deploy_isolation_counterexample:
  "raised (deploy X_ok args_deploy w_stale) = Some NameError \<and>
   cmds (final_of (deploy X_ok args_deploy w_stale)) = [] \<and>
   files (final_of (deploy X_ok args_deploy w_stale)) STATE_CFG = None"
  by (simp add: deploy_def deploy_with_def args_deploy_def web_def db_def link_quadlets_symlink_stmt symlink_stmt_def
      raised_def final_of_def w_stale_def w_init_def STATE_CFG_def)

text \<open>
  Claim C2 fails on the code: \<^verbatim>\<open>deploy web db\<close> with \<^verbatim>\<open>web\<close> not deployed raises
  \<^verbatim>\<open>NameError\<close> at the quadlet of \<^verbatim>\<open>web\<close> and leaves the world as it was; no link stands
  at the destination.
\<close>

theorem deploy_creates_no_link:
  "deploy X_ok args_deploy w_init = Inl (NameError, w_init) \<and>
   join (expanduser X_ok CONTAINER_LINK_DIR) (basename ''web.container'') =
     ''/home/u/.config/containers/systemd/web.container'' \<and>
   links w_init ''/home/u/.config/containers/systemd/web.container'' = None"
  by (simp add: deploy_def deploy_with_def args_deploy_def web_def db_def link_quadlets_symlink_stmt symlink_stmt_def
      w_init_def X_ok_def CONTAINER_LINK_DIR_def join_def basename_def)

text \<open>
  Claim C3 fails on the code for the service that is not deployed yet: \<^verbatim>\<open>deploy db web\<close>
  with \<^verbatim>\<open>db\<close> deployed passes over \<^verbatim>\<open>db\<close> and raises \<^verbatim>\<open>NameError\<close> at the quadlet of
  \<^verbatim>\<open>web\<close>: the job table is not regenerated, no state is written and the daemon is not
  reloaded.
\<close>

theorem deploy_installation_aborts:
  "deploy X_ok args_redeploy w_init = Inl (NameError, w_init) \<and>
   cmds w_init = [] \<and> table w_init = [] \<and> files w_init STATE_CFG = None"
  by (simp add: deploy_def deploy_with_def args_redeploy_def web_def db_def link_quadlets_symlink_stmt symlink_stmt_def
      w_init_def STATE_CFG_def)

section \<open>What each primitive changes\<close>

lemma raised_simps [simp]:
  "raised (Inr x) = None" "raised (Inl (e, w)) = Some e"
  by (simp_all add: raised_def)

lemma final_simps [simp]:
  "final (Inr w) = w" "final (Inl (e, w)) = w"
  by (simp_all add: final_def)

lemma final_of_simps [simp]:
  "final_of (Inr (x, w)) = w" "final_of (Inl (e, w)) = w"
  by (simp_all add: final_of_def)

lemma logged_fields [simp]:
  "files (logged cs w) = files w" "links (logged cs w) = links w" "dirs (logged cs w) = dirs w"
  "mounts (logged cs w) = mounts w" "environ (logged cs w) = environ w"
  "table (logged cs w) = table w" "cmds (logged cs w) = cmds w @ cs"
  "tmpn (logged cs w) = tmpn w" "stdout (logged cs w) = stdout w"
  by (simp_all add: logged_def)

lemma put_file_fields [simp]:
  "files (put_file f s w) = (files w)(f \<mapsto> s)" "links (put_file f s w) = links w"
  "dirs (put_file f s w) = dirs w" "mounts (put_file f s w) = mounts w"
  "environ (put_file f s w) = environ w" "table (put_file f s w) = table w"
  "cmds (put_file f s w) = cmds w" "tmpn (put_file f s w) = tmpn w"
  "stdout (put_file f s w) = stdout w"
  by (simp_all add: put_file_def)

lemma append_file_fields [simp]:
  "files (append_file f s w) = (files w)(f \<mapsto> (case files w f of None \<Rightarrow> s | Some c \<Rightarrow> c @ s))"
  "links (append_file f s w) = links w"
  "dirs (append_file f s w) = dirs w" "mounts (append_file f s w) = mounts w"
  "environ (append_file f s w) = environ w" "table (append_file f s w) = table w"
  "cmds (append_file f s w) = cmds w" "tmpn (append_file f s w) = tmpn w"
  "stdout (append_file f s w) = stdout w"
  by (simp_all add: append_file_def)

lemma unlink_tmp_fields [simp]:
  "files (unlink_tmp f w) = (files w)(f := None)" "links (unlink_tmp f w) = links w"
  "dirs (unlink_tmp f w) = dirs w" "mounts (unlink_tmp f w) = mounts w"
  "environ (unlink_tmp f w) = environ w" "table (unlink_tmp f w) = table w"
  "cmds (unlink_tmp f w) = cmds w" "tmpn (unlink_tmp f w) = tmpn w"
  "stdout (unlink_tmp f w) = stdout w"
  by (simp_all add: unlink_tmp_def)

lemma rmtree_fields [simp]:
  "links (rmtree d w) = links w"
  "dirs (rmtree d w) = dirs w - {d}" "mounts (rmtree d w) = mounts w"
  "environ (rmtree d w) = environ w" "table (rmtree d w) = table w"
  "cmds (rmtree d w) = cmds w" "tmpn (rmtree d w) = tmpn w"
  "stdout (rmtree d w) = stdout w"
  by (simp_all add: rmtree_def)

lemma mkdtemp_fields [simp]:
  "fst (mkdtemp w) = tmpname (tmpn w)"
  "files (snd (mkdtemp w)) = files w" "links (snd (mkdtemp w)) = links w"
  "dirs (snd (mkdtemp w)) = insert (tmpname (tmpn w)) (dirs w)"
  "mounts (snd (mkdtemp w)) = mounts w" "environ (snd (mkdtemp w)) = environ w"
  "table (snd (mkdtemp w)) = table w" "cmds (snd (mkdtemp w)) = cmds w"
  "tmpn (snd (mkdtemp w)) = Suc (tmpn w)" "stdout (snd (mkdtemp w)) = stdout w"
  by (simp_all add: mkdtemp_def)

lemma NamedTemporaryFile_fields [simp]:
  "fst (NamedTemporaryFile w) = tmpname (tmpn w)"
  "files (snd (NamedTemporaryFile w)) = (files w)(tmpname (tmpn w) \<mapsto> [])"
  "links (snd (NamedTemporaryFile w)) = links w"
  "dirs (snd (NamedTemporaryFile w)) = dirs w"
  "mounts (snd (NamedTemporaryFile w)) = mounts w" "environ (snd (NamedTemporaryFile w)) = environ w"
  "table (snd (NamedTemporaryFile w)) = table w" "cmds (snd (NamedTemporaryFile w)) = cmds w"
  "tmpn (snd (NamedTemporaryFile w)) = Suc (tmpn w)" "stdout (snd (NamedTemporaryFile w)) = stdout w"
  by (simp_all add: NamedTemporaryFile_def)

lemma cmd_effect_fields [simp]:
  "files (cmd_effect cmd w) = files w" "links (cmd_effect cmd w) = links w"
  "dirs (cmd_effect cmd w) = dirs w" "environ (cmd_effect cmd w) = environ w"
  "cmds (cmd_effect cmd w) = cmds w" "tmpn (cmd_effect cmd w) = tmpn w"
  "stdout (cmd_effect cmd w) = stdout w"
  by (simp_all add: cmd_effect_def split: list.splits)

lemma cmd_effect_table:
  "table (cmd_effect cmd w) =
     (case cmd of [prog, f] \<Rightarrow>
        (if prog = ''crontab'' then (case files w f of Some c \<Rightarrow> c | None \<Rightarrow> table w) else table w)
      | _ \<Rightarrow> table w)"
  by (cases cmd) (auto simp: cmd_effect_def split: list.splits)

lemma cmd_effect_mounts:
  "mounts (cmd_effect cmd w) =
     (case cmd of [] \<Rightarrow> mounts w
      | prog # argv \<Rightarrow>
          if prog = ''s3fs'' \<and> argv \<noteq> [] then last argv # mounts w
          else if prog = ''fusermount'' \<and> length argv = 2 \<and> hd argv = ''-u''
            then removeAll (last argv) (mounts w)
          else mounts w)"
  by (cases cmd) (auto simp: cmd_effect_def)

text \<open>\<^verbatim>\<open>run\<close>: the status decides the exception; the command is logged either way.\<close>

lemma run_raised [simp]:
  "raised (run X cmd checked w) =
     (if \<not> cmd_starts X cmd then Some FileNotFoundError
      else if checked \<and> \<not> cmd_ok X cmd then Some CalledProcessError else None)"
  by (simp add: run_def Let_def)

lemma run_checked:
  "run X cmd True w =
     (if succeeds X cmd then Inr (True, logged [cmd] (cmd_effect cmd w))
      else Inl (run_error X cmd, logged [cmd] w))"
  by (simp add: run_def Let_def succeeds_def run_error_def)

lemma run_fields [simp]:
  "files (final_of (run X cmd checked w)) = files w" "links (final_of (run X cmd checked w)) = links w"
  "dirs (final_of (run X cmd checked w)) = dirs w" "environ (final_of (run X cmd checked w)) = environ w"
  "cmds (final_of (run X cmd checked w)) = cmds w @ [cmd]"
  "tmpn (final_of (run X cmd checked w)) = tmpn w"
  "stdout (final_of (run X cmd checked w)) = stdout w"
  by (simp_all add: run_def Let_def)

lemma run_mounts:
  "mounts (final_of (run X cmd checked w)) =
     (if succeeds X cmd then mounts (cmd_effect cmd w) else mounts w)"
  by (simp add: run_def Let_def succeeds_def)

section \<open>Schedule regeneration\<close>

lemma write_jobs_fields [simp]:
  "links (write_jobs f ss w) = links w" "dirs (write_jobs f ss w) = dirs w"
  "mounts (write_jobs f ss w) = mounts w" "environ (write_jobs f ss w) = environ w"
  "table (write_jobs f ss w) = table w" "cmds (write_jobs f ss w) = cmds w"
  "tmpn (write_jobs f ss w) = tmpn w" "stdout (write_jobs f ss w) = stdout w"
  by (induction ss arbitrary: w) simp_all

lemma write_jobs_files:
  "files w f = Some c \<Longrightarrow> files (write_jobs f ss w) = (files w)(f \<mapsto> c @ job_table ss)"
proof (induction ss arbitrary: w c)
  case Nil
  then show ?case by (simp add: job_table_def map_upd_triv)
next
  case (Cons s ss)
  show ?case
  proof (cases "s_deployed s \<and> s_crontab s \<noteq> []")
    case True
    have "files (append_file f (s_crontab s) w) f = Some (c @ s_crontab s)"
      using Cons.prems by simp
    from Cons.IH[OF this] True Cons.prems show ?thesis
      by (simp add: job_table_def fun_eq_iff)
  next
    case False
    with Cons.IH[OF Cons.prems] show ?thesis
      by (auto simp: job_table_def)
  qed
qed

text \<open>
  What \<^verbatim>\<open>crontab\<close> does, by the status of its two commands: the table is replaced only when
  both succeed, by the concatenation written into the temporary file; the file is gone
  afterwards either way.
\<close>

lemma crontab_final:
  "raised (crontab X args w) =
     (if \<not> succeeds X [''crontab'', ''-n'', tmpname (tmpn w)]
        then Some (run_error X [''crontab'', ''-n'', tmpname (tmpn w)])
      else if \<not> succeeds X [''crontab'', tmpname (tmpn w)]
        then Some (run_error X [''crontab'', tmpname (tmpn w)])
      else None)"
  "table (final (crontab X args w)) =
     (if succeeds X [''crontab'', ''-n'', tmpname (tmpn w)] \<and> succeeds X [''crontab'', tmpname (tmpn w)]
      then job_table (services args) else table w)"
  "cmds (final (crontab X args w)) =
     cmds w @ (if succeeds X [''crontab'', ''-n'', tmpname (tmpn w)]
               then [[''crontab'', ''-n'', tmpname (tmpn w)], [''crontab'', tmpname (tmpn w)]]
               else [[''crontab'', ''-n'', tmpname (tmpn w)]])"
  "files (final (crontab X args w)) = (files w)(tmpname (tmpn w) := None)"
  "tmpn (final (crontab X args w)) = Suc (tmpn w)"
  "links (final (crontab X args w)) = links w" "dirs (final (crontab X args w)) = dirs w"
  "mounts (final (crontab X args w)) = mounts w" "environ (final (crontab X args w)) = environ w"
  "stdout (final (crontab X args w)) = stdout w"
proof -
  let ?f = "tmpname (tmpn w)"
  let ?w0 = "w\<lparr>files := (files w)(?f \<mapsto> []), tmpn := Suc (tmpn w)\<rparr>"
  let ?w1 = "write_jobs ?f (services args) ?w0"
  have f0: "files ?w0 ?f = Some []" by simp
  have f1: "files ?w1 = (files w)(?f \<mapsto> job_table (services args))"
    using write_jobs_files[OF f0, of "services args"] by simp
  have c: "crontab X args w =
      (case run X [''crontab'', ''-n'', ?f] True ?w1 of
           Inl (e, w2) \<Rightarrow> Inl (e, unlink_tmp ?f w2)
         | Inr (_, w2) \<Rightarrow>
             (case run X [''crontab'', ?f] True w2 of
                Inl (e, w3) \<Rightarrow> Inl (e, unlink_tmp ?f w3)
              | Inr (_, w3) \<Rightarrow> Inr (unlink_tmp ?f w3)))"
    by (simp add: crontab_def NamedTemporaryFile_def Let_def)
  have e1: "cmd_effect [''crontab'', ''-n'', ?f] ?w1 = ?w1"
    by (simp add: cmd_effect_def)
  have r1: "run X [''crontab'', ''-n'', ?f] True ?w1 =
      (if succeeds X [''crontab'', ''-n'', ?f] then Inr (True, logged [[''crontab'', ''-n'', ?f]] ?w1)
       else Inl (run_error X [''crontab'', ''-n'', ?f], logged [[''crontab'', ''-n'', ?f]] ?w1))"
    by (simp add: run_checked e1)
  let ?w2 = "logged [[''crontab'', ''-n'', ?f]] ?w1"
  have t2: "table (cmd_effect [''crontab'', ?f] ?w2) = job_table (services args)"
    by (simp add: cmd_effect_table f1)
  note r2 = run_checked[of X "[''crontab'', ?f]" ?w2]
  show "raised (crontab X args w) =
     (if \<not> succeeds X [''crontab'', ''-n'', ?f]
        then Some (run_error X [''crontab'', ''-n'', ?f])
      else if \<not> succeeds X [''crontab'', ?f]
        then Some (run_error X [''crontab'', ?f])
      else None)"
    by (simp add: c r1 r2)
  show "table (final (crontab X args w)) =
     (if succeeds X [''crontab'', ''-n'', ?f] \<and> succeeds X [''crontab'', ?f]
      then job_table (services args) else table w)"
    by (simp add: c r1 r2 t2)
  show "cmds (final (crontab X args w)) =
     cmds w @ (if succeeds X [''crontab'', ''-n'', ?f]
               then [[''crontab'', ''-n'', ?f], [''crontab'', ?f]]
               else [[''crontab'', ''-n'', ?f]])"
    by (simp add: c r1 r2)
  show "files (final (crontab X args w)) = (files w)(?f := None)"
    by (simp add: c r1 r2 f1)
  show "tmpn (final (crontab X args w)) = Suc (tmpn w)"
    by (simp add: c r1 r2)
  show "links (final (crontab X args w)) = links w"
    by (simp add: c r1 r2)
  show "dirs (final (crontab X args w)) = dirs w"
    by (simp add: c r1 r2)
  show "mounts (final (crontab X args w)) = mounts w"
    by (simp add: c r1 r2 cmd_effect_mounts)
  show "environ (final (crontab X args w)) = environ w"
    by (simp add: c r1 r2)
  show "stdout (final (crontab X args w)) = stdout w"
    by (simp add: c r1 r2)
qed

lemma render_loop_frame [simp]:
  "table (final (render_loop X secs ts w)) = table w"
  "cmds (final (render_loop X secs ts w)) = cmds w"
  "tmpn (final (render_loop X secs ts w)) = tmpn w"
  "links (final (render_loop X secs ts w)) = links w"
  "dirs (final (render_loop X secs ts w)) = dirs w"
  "mounts (final (render_loop X secs ts w)) = mounts w"
  "environ (final (render_loop X secs ts w)) = environ w"
  "stdout (final (render_loop X secs ts w)) = stdout w"
  by (induction ts arbitrary: w) (auto split: option.splits)

lemma secrets_frame [simp]:
  "table (final (secrets X args w)) = table w"
  "cmds (final (secrets X args w)) = cmds w"
  "tmpn (final (secrets X args w)) = tmpn w"
  "links (final (secrets X args w)) = links w"
  "dirs (final (secrets X args w)) = dirs w"
  "mounts (final (secrets X args w)) = mounts w"
  "environ (final (secrets X args w)) = environ w"
  "stdout (final (secrets X args w)) = stdout w"
  by (simp_all add: secrets_def split: sum.splits)

lemma write_state_fields [simp]:
  "files (write_state X args w) = (files w)(STATE_CFG \<mapsto> yaml_dump X (state_doc (services args)))"
  "table (write_state X args w) = table w" "cmds (write_state X args w) = cmds w"
  "tmpn (write_state X args w) = tmpn w" "links (write_state X args w) = links w"
  "dirs (write_state X args w) = dirs w" "mounts (write_state X args w) = mounts w"
  "environ (write_state X args w) = environ w" "stdout (write_state X args w) = stdout w"
  by (simp_all add: write_state_def state_doc_def)

lemma reload_run:
  "reload X args w =
     (if succeeds X [''systemctl'', ''--user'', ''daemon-reload'']
      then Inr (logged [[''systemctl'', ''--user'', ''daemon-reload'']] w)
      else Inl (run_error X [''systemctl'', ''--user'', ''daemon-reload''],
                logged [[''systemctl'', ''--user'', ''daemon-reload'']] w))"
  by (simp add: reload_def systemctl_checked)

text \<open>
  The loops of \<^verbatim>\<open>deploy\<close> and \<^verbatim>\<open>undeploy\<close> that return have set the flag of every selected
  service; with the link statement of the source the loop of \<^verbatim>\<open>deploy\<close> returns only when
  it has linked nothing.
\<close>

lemma deploy_loop_services:
  "deploy_loop L X linkdir ss w = Inr (ss', w1) \<Longrightarrow>
   ss' = map (\<lambda>s. s\<lparr>s_deployed := s_deployed s \<or> s_selected s\<rparr>) ss"
proof (induction ss arbitrary: w ss')
  case Nil
  then show ?case by simp
next
  case (Cons a ss)
  show ?case
  proof (cases "s_selected a \<and> \<not> s_deployed a")
    case True
    with Cons.prems obtain wa rest where
      r: "deploy_loop L X linkdir ss wa = Inr (rest, w1)" and e: "ss' = a\<lparr>s_deployed := True\<rparr> # rest"
      by (auto split: sum.splits)
    from Cons.IH[OF r] e True show ?thesis by simp
  next
    case False
    with Cons.prems obtain rest where
      r: "deploy_loop L X linkdir ss w = Inr (rest, w1)" and e: "ss' = a # rest"
      by (auto split: sum.splits)
    have "a\<lparr>s_deployed := s_deployed a \<or> s_selected a\<rparr> = a"
      using False by (cases "s_deployed a") simp_all
    with Cons.IH[OF r] e show ?thesis by simp
  qed
qed

lemma deploy_loop_symlink_world:
  "deploy_loop symlink_stmt X linkdir ss w = Inr (ss', w1) \<Longrightarrow> w1 = w"
proof (induction ss arbitrary: ss')
  case Nil
  then show ?case by simp
next
  case (Cons a ss)
  then show ?case
    by (auto simp: link_quadlets_symlink_stmt split: sum.splits if_splits)
qed

lemma os_remove_frame:
  "table (final (os_remove p w)) = table w" "cmds (final (os_remove p w)) = cmds w"
  "tmpn (final (os_remove p w)) = tmpn w"
  by (simp_all add: os_remove_def)

lemma remove_quadlets_frame:
  "table (final (remove_quadlets linkdir qs w)) = table w \<and>
   cmds (final (remove_quadlets linkdir qs w)) = cmds w \<and>
   tmpn (final (remove_quadlets linkdir qs w)) = tmpn w"
proof (induction qs arbitrary: w)
  case Nil
  show ?case by simp
next
  case (Cons q qs)
  let ?d = "join linkdir (basename q)"
  show ?case
  proof (cases "os_remove ?d w")
    case (Inl a)
    obtain e w' where a: "a = (e, w')" by (cases a)
    from Inl a os_remove_frame[of ?d w] have "table w' = table w" "cmds w' = cmds w" "tmpn w' = tmpn w"
      by simp_all
    with Inl a Cons.IH[of w'] show ?thesis by (simp add: Let_def)
  next
    case (Inr w')
    from Inr os_remove_frame[of ?d w] have "table w' = table w" "cmds w' = cmds w" "tmpn w' = tmpn w"
      by simp_all
    with Inr Cons.IH[of w'] show ?thesis by (simp add: Let_def)
  qed
qed

lemma undeploy_loop_frame:
  "table (final_of (undeploy_loop linkdir ss w)) = table w \<and>
   cmds (final_of (undeploy_loop linkdir ss w)) = cmds w \<and>
   tmpn (final_of (undeploy_loop linkdir ss w)) = tmpn w"
proof (induction ss arbitrary: w)
  case Nil
  show ?case by simp
next
  case (Cons a ss)
  show ?case
  proof (cases "s_selected a \<and> s_deployed a")
    case True
    show ?thesis
    proof (cases "remove_quadlets linkdir (s_quadlets a) w")
      case (Inl b)
      obtain e w' where b: "b = (e, w')" by (cases b)
      from Inl b remove_quadlets_frame[of linkdir "s_quadlets a" w] True show ?thesis by simp
    next
      case (Inr w')
      from Inr remove_quadlets_frame[of linkdir "s_quadlets a" w]
      have "table w' = table w" "cmds w' = cmds w" "tmpn w' = tmpn w" by simp_all
      with Inr True Cons.IH[of w'] show ?thesis
        by (auto split: sum.splits)
    qed
  next
    case False
    with Cons.IH[of w] show ?thesis by (auto split: sum.splits)
  qed
qed

lemma undeploy_loop_services:
  "undeploy_loop linkdir ss w = Inr (ss', w1) \<Longrightarrow>
   ss' = map (\<lambda>s. s\<lparr>s_deployed := s_deployed s \<and> \<not> s_selected s\<rparr>) ss"
proof (induction ss arbitrary: w ss')
  case Nil
  then show ?case by simp
next
  case (Cons a ss)
  show ?case
  proof (cases "s_selected a \<and> s_deployed a")
    case True
    with Cons.prems obtain wa rest where
      r: "undeploy_loop linkdir ss wa = Inr (rest, w1)" and e: "ss' = a\<lparr>s_deployed := False\<rparr> # rest"
      by (auto split: sum.splits)
    from Cons.IH[OF r] e True show ?thesis by simp
  next
    case False
    with Cons.prems obtain rest where
      r: "undeploy_loop linkdir ss w = Inr (rest, w1)" and e: "ss' = a # rest"
      by (auto split: sum.splits)
    have "a\<lparr>s_deployed := s_deployed a \<and> \<not> s_selected a\<rparr> = a"
      using False by (cases "s_deployed a") simp_all
    with Cons.IH[OF r] e show ?thesis by simp
  qed
qed

text \<open>
  \<^verbatim>\<open>deploy\<close> that returns, whatever its link statement is: the flags, the table and the
  state file.
\<close>

lemma deploy_with_returns:
  assumes d: "deploy_with L X args w = Inr (args', w')"
  shows "services args' = map (\<lambda>s. s\<lparr>s_deployed := s_deployed s \<or> s_selected s\<rparr>) (services args)"
    and "table w' = job_table (services args')"
    and "files w' STATE_CFG = Some (yaml_dump X (state_doc (services args')))"
proof -
  let ?ld = "expanduser X CONTAINER_LINK_DIR"
  from d obtain ss' w1 where
    l: "deploy_loop L X ?ld (services args) w = Inr (ss', w1)"
    by (auto simp: deploy_with_def Let_def split: sum.splits)
  let ?a = "args\<lparr>services := ss'\<rparr>"
  from d l obtain w2 where c: "crontab X ?a w1 = Inr w2"
    by (auto simp: deploy_with_def Let_def split: sum.splits)
  from d l c obtain w3 where s: "secrets X ?a w2 = Inr w3"
    by (auto simp: deploy_with_def Let_def split: sum.splits)
  from d l c s have r: "reload X ?a (write_state X ?a w3) = Inr w'" and a: "args' = ?a"
    by (auto simp: deploy_with_def Let_def split: sum.splits)
  from c crontab_final(1)[of X ?a w1]
  have ok: "succeeds X [''crontab'', ''-n'', tmpname (tmpn w1)] \<and> succeeds X [''crontab'', tmpname (tmpn w1)]"
    by (simp split: if_splits)
  from c ok crontab_final(2)[of X ?a w1] have w2: "table w2 = job_table ss'"
    by simp
  from s secrets_frame(1)[of X ?a w2] have w3: "table w3 = table w2"
    by simp
  from r have w': "w' = logged [[''systemctl'', ''--user'', ''daemon-reload'']] (write_state X ?a w3)"
    by (simp add: reload_run split: if_splits)
  show "services args' = map (\<lambda>s. s\<lparr>s_deployed := s_deployed s \<or> s_selected s\<rparr>) (services args)"
    using deploy_loop_services[OF l] a by simp
  show "table w' = job_table (services args')"
    using w' w2 w3 a by simp
  show "files w' STATE_CFG = Some (yaml_dump X (state_doc (services args')))"
    using w' a by simp
qed

text \<open>
  Claim C4, as the code has it. When \<^verbatim>\<open>deploy\<close> or \<^verbatim>\<open>undeploy\<close> returns, whatever was
  selected: the services have the flags that the operation gives them (\<^verbatim>\<open>deploy\<close> sets the
  flag of the selected services, \<^verbatim>\<open>undeploy\<close> clears it) and these flags are what the state
  file records; the installed job table is \<open>job_table\<close> of these services, the concatenation
  in configuration order of the entries of the deployed services that have one; and the
  only scheduler commands run are the check and the installation of one temporary file,
  which replaces the whole table (before the daemon reload, and after the stop commands of
  \<^verbatim>\<open>undeploy\<close>). The flags, the table and the state file are the same for \<^verbatim>\<open>deploy\<close> with any
  link statement \<open>L\<close> in place of the one of the source. Nothing is said of an operation
  that raises.
\<close>

theorem schedule_table_regenerated:
  "(deploy X args w = Inr (args', w') \<longrightarrow>
      services args' = map (\<lambda>s. s\<lparr>s_deployed := s_deployed s \<or> s_selected s\<rparr>) (services args) \<and>
      table w' = job_table (services args') \<and>
      cmds w' = cmds w @ [[''crontab'', ''-n'', tmpname (tmpn w)], [''crontab'', tmpname (tmpn w)],
                          [''systemctl'', ''--user'', ''daemon-reload'']] \<and>
      files w' STATE_CFG = Some (yaml_dump X (state_doc (services args')))) \<and>
   (undeploy X args w = Inr (args', w') \<longrightarrow>
      services args' = map (\<lambda>s. s\<lparr>s_deployed := s_deployed s \<and> \<not> s_selected s\<rparr>) (services args) \<and>
      table w' = job_table (services args') \<and>
      cmds w' = cmds w @ map stop_cmd (filter (\<lambda>s. s_selected s \<and> s_stop s \<noteq> []) (services args))
                @ [[''crontab'', ''-n'', tmpname (tmpn w)], [''crontab'', tmpname (tmpn w)],
                   [''systemctl'', ''--user'', ''daemon-reload'']] \<and>
      files w' STATE_CFG = Some (yaml_dump X (state_doc (services args')))) \<and>
   (deploy_with L X args w = Inr (args', w') \<longrightarrow>
      services args' = map (\<lambda>s. s\<lparr>s_deployed := s_deployed s \<or> s_selected s\<rparr>) (services args) \<and>
      table w' = job_table (services args') \<and>
      files w' STATE_CFG = Some (yaml_dump X (state_doc (services args'))))"
proof (intro conjI impI)
  assume d: "deploy X args w = Inr (args', w')"
  let ?ld = "expanduser X CONTAINER_LINK_DIR"
  from d obtain ss' w1 where
    l: "deploy_loop symlink_stmt X ?ld (services args) w = Inr (ss', w1)"
    by (auto simp: deploy_def deploy_with_def Let_def split: sum.splits)
  from deploy_loop_symlink_world[OF l] have w1: "w1 = w" .
  let ?a = "args\<lparr>services := ss'\<rparr>"
  from d l w1 obtain w2 where c: "crontab X ?a w = Inr w2"
    by (auto simp: deploy_def deploy_with_def Let_def split: sum.splits)
  from d l w1 c obtain w3 where s: "secrets X ?a w2 = Inr w3"
    by (auto simp: deploy_def deploy_with_def Let_def split: sum.splits)
  from d l w1 c s have r: "reload X ?a (write_state X ?a w3) = Inr w'" and a: "args' = ?a"
    by (auto simp: deploy_def deploy_with_def Let_def split: sum.splits)
  from c crontab_final(1)[of X ?a w]
  have ok: "succeeds X [''crontab'', ''-n'', tmpname (tmpn w)] \<and> succeeds X [''crontab'', tmpname (tmpn w)]"
    by (simp split: if_splits)
  from c ok crontab_final(2,3)[of X ?a w]
  have w2: "table w2 = job_table ss'"
    "cmds w2 = cmds w @ [[''crontab'', ''-n'', tmpname (tmpn w)], [''crontab'', tmpname (tmpn w)]]"
    by simp_all
  from s secrets_frame(1,2)[of X ?a w2] have w3: "table w3 = table w2" "cmds w3 = cmds w2"
    by simp_all
  from r have w': "w' = logged [[''systemctl'', ''--user'', ''daemon-reload'']] (write_state X ?a w3)"
    by (simp add: reload_run split: if_splits)
  show "services args' = map (\<lambda>s. s\<lparr>s_deployed := s_deployed s \<or> s_selected s\<rparr>) (services args)"
    using deploy_loop_services[OF l] a by simp
  show "table w' = job_table (services args')"
    using w' w2 w3 a by simp
  show "cmds w' = cmds w @ [[''crontab'', ''-n'', tmpname (tmpn w)], [''crontab'', tmpname (tmpn w)],
                          [''systemctl'', ''--user'', ''daemon-reload'']]"
    using w' w2 w3 by simp
  show "files w' STATE_CFG = Some (yaml_dump X (state_doc (services args')))"
    using w' a by simp
next
  assume u: "undeploy X args w = Inr (args', w')"
  let ?ld = "expanduser X CONTAINER_LINK_DIR"
  let ?stops = "map stop_cmd (filter (\<lambda>s. s_selected s \<and> s_stop s \<noteq> []) (services args))"
  from u obtain w0 where st: "stop X args w = Inr w0"
    by (auto simp: undeploy_def split: sum.splits)
  then have w0: "w0 = logged ?stops w"
    by (simp add: stop_def stop_loop_cmds split: if_splits)
  from u st obtain ss' w1 where l: "undeploy_loop ?ld (services args) w0 = Inr (ss', w1)"
    by (auto simp: undeploy_def Let_def split: sum.splits)
  from l undeploy_loop_frame[of ?ld "services args" w0]
  have w1: "table w1 = table w0" "cmds w1 = cmds w0" "tmpn w1 = tmpn w0"
    by simp_all
  let ?a = "args\<lparr>services := ss'\<rparr>"
  from u st l obtain w2 where c: "crontab X ?a w1 = Inr w2"
    by (auto simp: undeploy_def Let_def split: sum.splits)
  from u st l c have r: "reload X ?a (write_state X ?a w2) = Inr w'" and a: "args' = ?a"
    by (auto simp: undeploy_def Let_def split: sum.splits)
  from c crontab_final(1)[of X ?a w1]
  have ok: "succeeds X [''crontab'', ''-n'', tmpname (tmpn w1)] \<and> succeeds X [''crontab'', tmpname (tmpn w1)]"
    by (simp split: if_splits)
  from c ok crontab_final(2,3)[of X ?a w1]
  have w2: "table w2 = job_table ss'"
    "cmds w2 = cmds w1 @ [[''crontab'', ''-n'', tmpname (tmpn w1)], [''crontab'', tmpname (tmpn w1)]]"
    by simp_all
  from r have w': "w' = logged [[''systemctl'', ''--user'', ''daemon-reload'']] (write_state X ?a w2)"
    by (simp add: reload_run split: if_splits)
  show "services args' = map (\<lambda>s. s\<lparr>s_deployed := s_deployed s \<and> \<not> s_selected s\<rparr>) (services args)"
    using undeploy_loop_services[OF l] a by simp
  show "table w' = job_table (services args')"
    using w' w2 a by simp
  show "cmds w' = cmds w @ ?stops
                @ [[''crontab'', ''-n'', tmpname (tmpn w)], [''crontab'', tmpname (tmpn w)],
                   [''systemctl'', ''--user'', ''daemon-reload'']]"
    using w' w2 w1 w0 by simp
  show "files w' STATE_CFG = Some (yaml_dump X (state_doc (services args')))"
    using w' a by simp
next
  assume dw: "deploy_with L X args w = Inr (args', w')"
  show "services args' = map (\<lambda>s. s\<lparr>s_deployed := s_deployed s \<or> s_selected s\<rparr>) (services args)"
    using dw by (rule deploy_with_returns(1))
  show "table w' = job_table (services args')"
    using dw by (rule deploy_with_returns(2))
  show "files w' STATE_CFG = Some (yaml_dump X (state_doc (services args')))"
    using dw by (rule deploy_with_returns(3))
qed

text \<open>
  \<^verbatim>\<open>deploy db\<close> returns and leaves the jobs of \<^verbatim>\<open>cache\<close> and \<^verbatim>\<open>db\<close> in the table;
  \<^verbatim>\<open>undeploy db\<close> returns and leaves the job of \<^verbatim>\<open>cache\<close>.
\<close>

theorem schedule_table_regenerated_witness:
  "raised (deploy X_ok args_deploy_db w_init) = None \<and>
   table (final_of (deploy X_ok args_deploy_db w_init)) = ''@daily cache-job;@hourly db-job;'' \<and>
   cmds (final_of (deploy X_ok args_deploy_db w_init)) =
     [[''crontab'', ''-n'', ''/tmp/tmp''], [''crontab'', ''/tmp/tmp''],
      [''systemctl'', ''--user'', ''daemon-reload'']] \<and>
   raised (undeploy X_ok args_undeploy_db w_init) = None \<and>
   table (final_of (undeploy X_ok args_undeploy_db w_init)) = ''@daily cache-job;'' \<and>
   cmds (final_of (undeploy X_ok args_undeploy_db w_init)) =
     [[''systemctl'', ''--user'', ''stop'', ''db.service''],
      [''crontab'', ''-n'', ''/tmp/tmp''], [''crontab'', ''/tmp/tmp''],
      [''systemctl'', ''--user'', ''daemon-reload'']]"
proof -
  have "raised (deploy X_ok args_deploy_db w_init) = None"
    by (simp add: deploy_def deploy_with_def args_deploy_db_def cache_def batch_def db_def
        crontab_def NamedTemporaryFile_def run_def cmd_effect_def secrets_def load_secrets_def
        load_templates_def read_file_def SECRET_CFG_def X_ok_def demo_load_def w_init_def
        reload_def systemctl_def Let_def tmpname_def)
  then obtain a' w' where d: "deploy X_ok args_deploy_db w_init = Inr (a', w')"
    by (cases "deploy X_ok args_deploy_db w_init") auto
  have "raised (undeploy X_ok args_undeploy_db w_init) = None"
    by (simp add: undeploy_def stop_def args_undeploy_db_def cache_def batch_def db_def
        crontab_def NamedTemporaryFile_def run_def cmd_effect_def
        X_ok_def w_init_def reload_def systemctl_def Let_def tmpname_def)
  then obtain a'' w'' where u: "undeploy X_ok args_undeploy_db w_init = Inr (a'', w'')"
    by (cases "undeploy X_ok args_undeploy_db w_init") auto
  from schedule_table_regenerated[of X_ok args_deploy_db w_init a' w'] d
  have 1: "table w' = ''@daily cache-job;@hourly db-job;''"
    "cmds w' = [[''crontab'', ''-n'', ''/tmp/tmp''], [''crontab'', ''/tmp/tmp''],
                [''systemctl'', ''--user'', ''daemon-reload'']]"
    by (simp_all add: job_table_def args_deploy_db_def cache_def batch_def db_def w_init_def tmpname_def)
  from schedule_table_regenerated[of X_ok args_undeploy_db w_init a'' w''] u
  have 2: "table w'' = ''@daily cache-job;''"
    "cmds w'' = [[''systemctl'', ''--user'', ''stop'', ''db.service''],
      [''crontab'', ''-n'', ''/tmp/tmp''], [''crontab'', ''/tmp/tmp''],
      [''systemctl'', ''--user'', ''daemon-reload'']]"
    by (simp_all add: job_table_def args_undeploy_db_def cache_def batch_def db_def w_init_def
        tmpname_def stop_cmd_def)
  from d u 1 2 show ?thesis by simp
qed

text \<open>
  The claim C4 as stated fails for an operation that raises. \<^verbatim>\<open>deploy db\<close> with \<^verbatim>\<open>web\<close>
  deployed, and recorded so in the state file, and the template of a secret file of \<^verbatim>\<open>web\<close>
  missing: the table is replaced, with the job of \<^verbatim>\<open>db\<close> in it, then \<^verbatim>\<open>secrets\<close> raises and
  the state file is not rewritten; it still records \<^verbatim>\<open>web\<close> alone. The same operation when
  the check of the new table exits with a non-zero status: \<^verbatim>\<open>crontab\<close> raises and the table
  that was installed before stays, which is the concatenation for no set of services.
\<close>

theorem schedule_table_counterexample:
  "raised (deploy X_ok args_deploy_env w_state) = Some FileNotFoundError \<and>
   table (final_of (deploy X_ok args_deploy_env w_state)) = ''@daily web-job;@hourly db-job;'' \<and>
   files (final_of (deploy X_ok args_deploy_env w_state)) STATE_CFG = Some ''STATE'' \<and>
   yaml_load X_ok ''STATE'' = Some (YMap [(''deployed'', YMap [(''web'', YBool True)])]) \<and>
   raised (deploy X_crontab_fails args_deploy_env (w_state\<lparr>table := ''stale''\<rparr>)) =
     Some CalledProcessError \<and>
   table (final_of (deploy X_crontab_fails args_deploy_env (w_state\<lparr>table := ''stale''\<rparr>))) = ''stale''"
  by (simp add: deploy_def deploy_with_def args_deploy_env_def web_def db_def
      crontab_def NamedTemporaryFile_def run_def cmd_effect_def logged_def unlink_tmp_def
      append_file_def secrets_def load_secrets_def
      load_templates_def read_file_def SECRET_CFG_def STATE_CFG_def X_ok_def X_crontab_fails_def
      demo_load_def w_state_def w_init_def Let_def tmpname_def)

section \<open>The mount and the credentials of backup and fetch\<close>

lemma tmpname_inj [simp]: "(tmpname a = tmpname b) = (a = b)"
proof
  assume "tmpname a = tmpname b"
  then have "length (tmpname a) = length (tmpname b)" by simp
  then show "a = b" by (simp add: tmpname_def)
qed simp

lemma session_kept_refl [simp]: "session_kept w w"
  by (simp add: session_kept_def)

lemma session_kept_trans: "session_kept a b \<Longrightarrow> session_kept b c \<Longrightarrow> session_kept a c"
  by (auto simp: session_kept_def)

lemma xcrypt_frame:
  "mounts (final (xcrypt X enc source dest w)) = mounts w \<and>
   environ (final (xcrypt X enc source dest w)) = environ w \<and>
   dirs (final (xcrypt X enc source dest w)) = dirs w \<and>
   tmpn (final (xcrypt X enc source dest w)) = tmpn w"
  by (simp add: xcrypt_def split: option.splits)

lemma encrypt_files_frame:
  "mounts (final (encrypt_files X tmpdir sources w)) = mounts w \<and>
   environ (final (encrypt_files X tmpdir sources w)) = environ w \<and>
   dirs (final (encrypt_files X tmpdir sources w)) = dirs w \<and>
   tmpn (final (encrypt_files X tmpdir sources w)) = tmpn w"
proof (induction sources arbitrary: w)
  case Nil
  show ?case by simp
next
  case (Cons s sources)
  let ?x = "xcrypt X True s (join tmpdir (basename s)) w"
  show ?case
  proof (cases ?x)
    case (Inl a)
    obtain e w' where a: "a = (e, w')" by (cases a)
    from Inl a xcrypt_frame[of X True s "join tmpdir (basename s)" w] show ?thesis
      by (simp add: Let_def)
  next
    case (Inr w')
    from Inr xcrypt_frame[of X True s "join tmpdir (basename s)" w]
    have "mounts w' = mounts w" "environ w' = environ w" "dirs w' = dirs w" "tmpn w' = tmpn w"
      by simp_all
    with Inr Cons.IH[of w'] show ?thesis by (simp add: Let_def)
  qed
qed

lemma fetch_loop_frame:
  "mounts (final (fetch_loop X mp fname ss w)) = mounts w \<and>
   environ (final (fetch_loop X mp fname ss w)) = environ w \<and>
   dirs (final (fetch_loop X mp fname ss w)) = dirs w \<and>
   tmpn (final (fetch_loop X mp fname ss w)) = tmpn w"
proof (induction ss arbitrary: w)
  case Nil
  show ?case by simp
next
  case (Cons s ss)
  let ?x = "xcrypt X False (join (join mp (s_name s)) fname) fname w"
  show ?case
  proof (cases "s_selected s")
    case False
    with Cons.IH[of w] show ?thesis by simp
  next
    case True
    show ?thesis
    proof (cases ?x)
      case (Inl a)
      obtain e w' where a: "a = (e, w')" by (cases a)
      from Inl a True xcrypt_frame[of X False "join (join mp (s_name s)) fname" fname w]
      show ?thesis by (simp add: Let_def)
    next
      case (Inr w')
      from Inr xcrypt_frame[of X False "join (join mp (s_name s)) fname" fname w]
      have "mounts w' = mounts w" "environ w' = environ w" "dirs w' = dirs w" "tmpn w' = tmpn w"
        by simp_all
      with Inr True Cons.IH[of w'] show ?thesis by (simp add: Let_def)
    qed
  qed
qed

lemma rsync_effect: "cmd_effect (''rsync'' # args) w = w"
  by (simp add: cmd_effect_def)

lemma run_rsync:
  "run X (''rsync'' # args) True w =
     (if succeeds X (''rsync'' # args) then Inr (True, logged [''rsync'' # args] w)
      else Inl (run_error X (''rsync'' # args), logged [''rsync'' # args] w))"
  by (simp add: run_checked rsync_effect)

lemma backup_service_frame:
  "mounts (final (backup_service X verb mp s w)) = mounts w \<and>
   environ (final (backup_service X verb mp s w)) = environ w \<and>
   dirs (final (backup_service X verb mp s w)) = dirs w - {tmpname (tmpn w)} \<and>
   tmpn (final (backup_service X verb mp s w)) = Suc (tmpn w)"
proof -
  let ?t = "tmpname (tmpn w)"
  let ?w1 = "w\<lparr>dirs := insert ?t (dirs w), tmpn := Suc (tmpn w)\<rparr>"
  let ?srcs = "concat (map (iglob X) (s_backups s))"
  let ?cmd = "[''rsync'', ''--recursive'', ''--delete-during'', ''--whole-file'', ''--fsync'']
                        @ (if verb then [''--verbose''] else [])
                        @ [?t @ ''/'', join mp (s_name s)]"
  have b: "backup_service X verb mp s w =
      (case encrypt_files X ?t ?srcs ?w1 of
           Inl (e, w2) \<Rightarrow> Inl (e, rmtree ?t w2)
         | Inr w2 \<Rightarrow>
             (case run X ?cmd True w2 of
                   Inl (e, w3) \<Rightarrow> Inl (e, rmtree ?t w3)
                 | Inr (_, w3) \<Rightarrow> Inr (rmtree ?t w3)))"
    unfolding backup_service_def mkdtemp_def Let_def by simp
  note ef = encrypt_files_frame[of X ?t ?srcs ?w1]
  show ?thesis
  proof (cases "encrypt_files X ?t ?srcs ?w1")
    case (Inl a)
    obtain e w2 where a: "a = (e, w2)" by (cases a)
    from Inl a ef show ?thesis by (simp add: b)
  next
    case (Inr w2)
    from Inr ef have w2: "mounts w2 = mounts w" "environ w2 = environ w"
      "dirs w2 = insert ?t (dirs w)" "tmpn w2 = Suc (tmpn w)"
      by simp_all
    from Inr w2 show ?thesis by (simp add: b run_rsync)
  qed
qed

lemma backup_service_kept: "session_kept w (final (backup_service X verb mp s w))"
  using backup_service_frame[of X verb mp s w] by (auto simp: session_kept_def)

lemma backup_loop_kept: "session_kept w (final (backup_loop X verb mp ss w))"
proof (induction ss arbitrary: w)
  case Nil
  show ?case by simp
next
  case (Cons s ss)
  show ?case
  proof (cases "s_deployed s \<and> s_backups s \<noteq> []")
    case False
    with Cons.IH[of w] show ?thesis by auto
  next
    case True
    note k = backup_service_kept[of w X verb mp s]
    show ?thesis
    proof (cases "backup_service X verb mp s w")
      case (Inl a)
      obtain e w' where a: "a = (e, w')" by (cases a)
      from Inl a True k show ?thesis by simp
    next
      case (Inr w')
      from Inr k have "session_kept w w'" by simp
      from session_kept_trans[OF this Cons.IH[of w']] Inr True show ?thesis by simp
    qed
  qed
qed

lemma set_environ_ok:
  "set_environ k v w = Inr w1 \<Longrightarrow>
   environ w1 k \<noteq> None \<and> (\<forall>j. j \<noteq> k \<longrightarrow> environ w1 j = environ w j) \<and>
   mounts w1 = mounts w \<and> dirs w1 = dirs w \<and> tmpn w1 = tmpn w"
  by (auto simp: set_environ_def split: sum.splits)

lemma export_credentials_ok:
  assumes "export_credentials secs w = Inr w1"
  shows "environ w1 ''AWS_ACCESS_KEY_ID'' \<noteq> None" "environ w1 ''AWS_SECRET_ACCESS_KEY'' \<noteq> None"
    "mounts w1 = mounts w" "dirs w1 = dirs w" "tmpn w1 = tmpn w"
proof -
  from assms obtain k sk wa where
    a: "set_environ ''AWS_ACCESS_KEY_ID'' k w = Inr wa" and
    b: "set_environ ''AWS_SECRET_ACCESS_KEY'' sk wa = Inr w1"
    by (auto simp: export_credentials_def split: sum.splits)
  note A = set_environ_ok[OF a] and B = set_environ_ok[OF b]
  from B show "environ w1 ''AWS_SECRET_ACCESS_KEY'' \<noteq> None" by simp
  from A B show "environ w1 ''AWS_ACCESS_KEY_ID'' \<noteq> None" by simp
  from A B show "mounts w1 = mounts w" "dirs w1 = dirs w" "tmpn w1 = tmpn w" by simp_all
qed

lemma mount_bucket_final:
  "environ (final_of (mount_bucket X verb b r w)) = environ w"
  "mount_bucket X verb b r w = Inr (mp, w2) \<Longrightarrow>
     mp = tmpname (tmpn w) \<and> mounts w2 = mp # mounts w \<and> dirs w2 = insert mp (dirs w) \<and>
     tmpn w2 = Suc (tmpn w)"
proof -
  let ?mp = "tmpname (tmpn w)"
  let ?w1 = "w\<lparr>dirs := insert ?mp (dirs w), tmpn := Suc (tmpn w)\<rparr>"
  let ?cmd = "[''s3fs'', ''-o'', ''use_sse'', ''-o'', ''endpoint='' @ r,
                 ''-o'', ''url=https://s3.'' @ r @ ''.amazonaws.com'']
                @ (if verb then [''-o'', ''dbglevel=info'', ''-o'', ''curldbg''] else [])
                @ [b, ?mp]"
  have m: "mount_bucket X verb b r w =
      (case run X ?cmd True ?w1 of Inl e \<Rightarrow> Inl e | Inr (_, w2) \<Rightarrow> Inr (?mp, w2))"
    unfolding mount_bucket_def mkdtemp_def Let_def by simp
  have eff: "mounts (cmd_effect ?cmd ?w1) = ?mp # mounts w"
    by (simp add: cmd_effect_mounts)
  note rf = run_fields[of X ?cmd True ?w1] and rm = run_mounts[of X ?cmd True ?w1]
    and rr = run_raised[of X ?cmd True ?w1]
  show "environ (final_of (mount_bucket X verb b r w)) = environ w"
  proof (cases "run X ?cmd True ?w1")
    case (Inl a)
    obtain e w' where a: "a = (e, w')" by (cases a)
    from Inl a rf(4) show ?thesis by (simp add: m)
  next
    case (Inr a)
    obtain x w' where a: "a = (x, w')" by (cases a)
    from Inr a rf(4) show ?thesis by (simp add: m)
  qed
  assume ok: "mount_bucket X verb b r w = Inr (mp, w2)"
  then obtain x where run: "run X ?cmd True ?w1 = Inr (x, w2)" and mp: "mp = ?mp"
    by (auto simp: m split: sum.splits)
  from run rr have c: "succeeds X ?cmd" by (simp add: succeeds_def split: if_splits)
  from run rf(3,6) rm c eff mp
  show "mp = tmpname (tmpn w) \<and> mounts w2 = mp # mounts w \<and> dirs w2 = insert mp (dirs w) \<and>
     tmpn w2 = Suc (tmpn w)"
    by simp
qed

lemma open_bucket_final:
  "environ (final_of (open_bucket X verb secs w)) = environ w"
  "open_bucket X verb secs w = Inr (mp, w2) \<Longrightarrow>
     mp = tmpname (tmpn w) \<and> mounts w2 = mp # mounts w \<and> dirs w2 = insert mp (dirs w) \<and>
     tmpn w2 = Suc (tmpn w)"
proof -
  show "environ (final_of (open_bucket X verb secs w)) = environ w"
    by (simp add: open_bucket_def mount_bucket_final(1) split: sum.splits)
  assume "open_bucket X verb secs w = Inr (mp, w2)"
  then obtain b r where "mount_bucket X verb b r w = Inr (mp, w2)"
    by (auto simp: open_bucket_def split: sum.splits)
  then show "mp = tmpname (tmpn w) \<and> mounts w2 = mp # mounts w \<and> dirs w2 = insert mp (dirs w) \<and>
     tmpn w2 = Suc (tmpn w)"
    by (rule mount_bucket_final(2))
qed

lemma unmount_bucket_final:
  "environ (final (unmount_bucket X mp w)) = environ w"
  "unmount_bucket X mp w = Inr w' \<Longrightarrow>
     mounts w' = removeAll mp (mounts w) \<and> dirs w' = dirs w - {mp}"
proof -
  let ?cmd = "[''fusermount'', ''-u'', mp]"
  note r = run_checked[of X ?cmd w]
  have eff: "mounts (cmd_effect ?cmd w) = removeAll mp (mounts w)"
    by (simp add: cmd_effect_mounts)
  show "environ (final (unmount_bucket X mp w)) = environ w"
    by (simp add: unmount_bucket_def r os_rmdir_def)
  show "unmount_bucket X mp w = Inr w' \<Longrightarrow>
     mounts w' = removeAll mp (mounts w) \<and> dirs w' = dirs w - {mp}"
    using eff by (auto simp: unmount_bucket_def r os_rmdir_def split: if_splits)
qed

lemma close_bucket_returns:
  assumes "close_bucket X mp w = Inr w'"
  shows "mp \<notin> set (mounts w')" "mp \<notin> dirs w'"
    "environ w' ''AWS_ACCESS_KEY_ID'' = None" "environ w' ''AWS_SECRET_ACCESS_KEY'' = None"
proof -
  from assms obtain w1 w2 where
    u: "unmount_bucket X mp w = Inr w1" and
    d1: "del_environ ''AWS_ACCESS_KEY_ID'' w1 = Inr w2" and
    d2: "del_environ ''AWS_SECRET_ACCESS_KEY'' w2 = Inr w'"
    by (auto simp: close_bucket_def split: sum.splits)
  from unmount_bucket_final(2)[OF u] have m: "mp \<notin> set (mounts w1)" "mp \<notin> dirs w1" by simp_all
  from d1 have 1: "mounts w2 = mounts w1" "dirs w2 = dirs w1" "environ w2 ''AWS_ACCESS_KEY_ID'' = None"
    by (auto simp: del_environ_def split: if_splits)
  from d2 have 2: "mounts w' = mounts w2" "dirs w' = dirs w2"
    "environ w' ''AWS_SECRET_ACCESS_KEY'' = None"
    "environ w' ''AWS_ACCESS_KEY_ID'' = environ w2 ''AWS_ACCESS_KEY_ID''"
    by (auto simp: del_environ_def split: if_splits)
  from m 1 2 show "mp \<notin> set (mounts w')" "mp \<notin> dirs w'"
    "environ w' ''AWS_ACCESS_KEY_ID'' = None" "environ w' ''AWS_SECRET_ACCESS_KEY'' = None"
    by simp_all
qed

lemma close_bucket_raises:
  assumes "close_bucket X mp w = Inl (e, w')"
      and "environ w ''AWS_ACCESS_KEY_ID'' \<noteq> None" and "environ w ''AWS_SECRET_ACCESS_KEY'' \<noteq> None"
  shows "environ w' = environ w"
proof (cases "unmount_bucket X mp w")
  case (Inl a)
  with assms(1) have "unmount_bucket X mp w = Inl (e, w')"
    by (simp add: close_bucket_def)
  with unmount_bucket_final(1)[of X mp w] show ?thesis by simp
next
  case (Inr w1)
  with unmount_bucket_final(1)[of X mp w] have e1: "environ w1 = environ w" by simp
  with assms(2) obtain w2 where d1: "del_environ ''AWS_ACCESS_KEY_ID'' w1 = Inr w2"
    and e2: "environ w2 ''AWS_SECRET_ACCESS_KEY'' = environ w1 ''AWS_SECRET_ACCESS_KEY''"
    by (auto simp: del_environ_def)
  with e1 assms(3) have "\<exists>w3. del_environ ''AWS_SECRET_ACCESS_KEY'' w2 = Inr w3"
    by (auto simp: del_environ_def)
  with assms(1) Inr d1 show ?thesis by (auto simp: close_bucket_def)
qed

text \<open>
  Claim C1, as the code has it. Take an invocation of \<^verbatim>\<open>backup\<close> or \<^verbatim>\<open>fetch\<close> in which the
  secrets are loaded, the credentials exported and the bucket mounted on \<open>mp\<close>. The mount
  point is then mounted and its directory exists. If the operation returns, the mount
  point is no longer mounted and its directory is gone. If a step of the loop over the
  services raises (encryption, sync or decryption), the operation raises that exception
  at once, and the mount point is still mounted and its directory still there.
\<close>

theorem pipeline_unmounts_on_return:
  assumes "load_secrets X w = Inr secs"
      and "export_credentials secs w = Inr w1"
      and "open_bucket X (verbose args) secs w1 = Inr (mp, w2)"
  shows "mp \<in> set (mounts w2) \<and> mp \<in> dirs w2 \<and>
    (\<forall>w'. backup X args w = Inr w' \<longrightarrow> mp \<notin> set (mounts w') \<and> mp \<notin> dirs w') \<and>
    (\<forall>e w'. backup_loop X (verbose args) mp (services args) w2 = Inl (e, w') \<longrightarrow>
       backup X args w = Inl (e, w') \<and> mp \<in> set (mounts w') \<and> mp \<in> dirs w') \<and>
    (\<forall>w'. fetch X args w = Inr w' \<longrightarrow> mp \<notin> set (mounts w') \<and> mp \<notin> dirs w') \<and>
    (\<forall>e w'. fetch_loop X mp (file_arg args) (services args) w2 = Inl (e, w') \<longrightarrow>
       fetch X args w = Inl (e, w') \<and> mp \<in> set (mounts w') \<and> mp \<in> dirs w')"
proof -
  note ob = open_bucket_final(2)[OF assms(3)]
  have b: "backup X args w =
      (case backup_loop X (verbose args) mp (services args) w2 of
         Inl e \<Rightarrow> Inl e | Inr w3 \<Rightarrow> close_bucket X mp w3)"
    using assms by (simp add: backup_def)
  have f: "fetch X args w =
      (case fetch_loop X mp (file_arg args) (services args) w2 of
         Inl e \<Rightarrow> Inl e | Inr w3 \<Rightarrow> close_bucket X mp w3)"
    using assms by (simp add: fetch_def)
  from ob have m2: "mp \<in> set (mounts w2)" "mp \<in> dirs w2" by simp_all
  have 1: "mp \<notin> set (mounts w') \<and> mp \<notin> dirs w'" if "backup X args w = Inr w'" for w'
  proof -
    from that obtain w3 where "close_bucket X mp w3 = Inr w'"
      by (auto simp: b split: sum.splits)
    from close_bucket_returns(1,2)[OF this] show ?thesis by simp
  qed
  have 2: "backup X args w = Inl (e, w') \<and> mp \<in> set (mounts w') \<and> mp \<in> dirs w'"
    if l: "backup_loop X (verbose args) mp (services args) w2 = Inl (e, w')" for e w'
  proof -
    from backup_loop_kept[of w2 X "verbose args" mp "services args"] l
    have k: "session_kept w2 w'" by simp
    from ob have "mp = tmpname (tmpn w1)" "tmpn w1 < tmpn w2" by simp_all
    with k m2 have "mp \<in> set (mounts w')" "mp \<in> dirs w'"
      by (auto simp: session_kept_def)
    with l show ?thesis by (simp add: b)
  qed
  have 3: "mp \<notin> set (mounts w') \<and> mp \<notin> dirs w'" if "fetch X args w = Inr w'" for w'
  proof -
    from that obtain w3 where "close_bucket X mp w3 = Inr w'"
      by (auto simp: f split: sum.splits)
    from close_bucket_returns(1,2)[OF this] show ?thesis by simp
  qed
  have 4: "fetch X args w = Inl (e, w') \<and> mp \<in> set (mounts w') \<and> mp \<in> dirs w'"
    if l: "fetch_loop X mp (file_arg args) (services args) w2 = Inl (e, w')" for e w'
  proof -
    from fetch_loop_frame[of X mp "file_arg args" "services args" w2] l
    have "mounts w' = mounts w2" "dirs w' = dirs w2" by simp_all
    with m2 l show ?thesis by (simp add: f)
  qed
  from m2 1 2 3 4 show ?thesis by blast
qed

text \<open>
  Claim C7, as the code has it. Take an invocation of \<^verbatim>\<open>backup\<close> or \<^verbatim>\<open>fetch\<close> in which the
  secrets are loaded and the two credentials exported. Both variables are then in the
  environment. If the operation returns, both have been removed. If it raises, at the
  mount or at any step after it, the environment is the one that holds the credentials:
  they are not removed.
\<close>

theorem credentials_removed_on_return:
  assumes "load_secrets X w = Inr secs"
      and "export_credentials secs w = Inr w1"
  shows "environ w1 ''AWS_ACCESS_KEY_ID'' \<noteq> None \<and> environ w1 ''AWS_SECRET_ACCESS_KEY'' \<noteq> None \<and>
    (\<forall>w'. backup X args w = Inr w' \<longrightarrow>
       environ w' ''AWS_ACCESS_KEY_ID'' = None \<and> environ w' ''AWS_SECRET_ACCESS_KEY'' = None) \<and>
    (\<forall>e w'. backup X args w = Inl (e, w') \<longrightarrow> environ w' = environ w1) \<and>
    (\<forall>w'. fetch X args w = Inr w' \<longrightarrow>
       environ w' ''AWS_ACCESS_KEY_ID'' = None \<and> environ w' ''AWS_SECRET_ACCESS_KEY'' = None) \<and>
    (\<forall>e w'. fetch X args w = Inl (e, w') \<longrightarrow> environ w' = environ w1)"
proof -
  note ec = export_credentials_ok(1,2)[OF assms(2)]
  let ?ob = "open_bucket X (verbose args) secs w1"
  have b: "backup X args w =
      (case ?ob of Inl e \<Rightarrow> Inl e
       | Inr (mp, w2) \<Rightarrow>
           (case backup_loop X (verbose args) mp (services args) w2 of
              Inl e \<Rightarrow> Inl e | Inr w3 \<Rightarrow> close_bucket X mp w3))"
    using assms by (simp add: backup_def)
  have f: "fetch X args w =
      (case ?ob of Inl e \<Rightarrow> Inl e
       | Inr (mp, w2) \<Rightarrow>
           (case fetch_loop X mp (file_arg args) (services args) w2 of
              Inl e \<Rightarrow> Inl e | Inr w3 \<Rightarrow> close_bucket X mp w3))"
    using assms by (simp add: fetch_def)
  note oe = open_bucket_final(1)[of X "verbose args" secs w1]
  have ret: "environ w' ''AWS_ACCESS_KEY_ID'' = None \<and> environ w' ''AWS_SECRET_ACCESS_KEY'' = None"
    if "close_bucket X mp w3 = Inr w'" for mp w3 w'
    using close_bucket_returns(3,4)[OF that] by simp
  have 1: "environ w' ''AWS_ACCESS_KEY_ID'' = None \<and> environ w' ''AWS_SECRET_ACCESS_KEY'' = None"
    if "backup X args w = Inr w'" for w'
    using that ret by (auto simp: b split: sum.splits)
  have 3: "environ w' ''AWS_ACCESS_KEY_ID'' = None \<and> environ w' ''AWS_SECRET_ACCESS_KEY'' = None"
    if "fetch X args w = Inr w'" for w'
    using that ret by (auto simp: f split: sum.splits)
  have tail: "environ w' = environ w1"
    if o: "?ob = Inr (mp, w2)" and k: "environ (final loop) = environ w2"
      and r: "(case loop of Inl e \<Rightarrow> Inl e | Inr w3 \<Rightarrow> close_bucket X mp w3) = Inl (e, w')"
    for mp w2 loop e w'
  proof -
    from o oe have e2: "environ w2 = environ w1" by simp
    show ?thesis
    proof (cases loop)
      case (Inl a)
      with r k e2 show ?thesis by auto
    next
      case (Inr w3)
      with k e2 have e3: "environ w3 = environ w1" by simp
      from Inr r have "close_bucket X mp w3 = Inl (e, w')" by simp
      from close_bucket_raises[OF this] e3 ec show ?thesis by simp
    qed
  qed
  have 2: "environ w' = environ w1" if r: "backup X args w = Inl (e, w')" for e w'
  proof (cases ?ob)
    case (Inl a)
    with r oe show ?thesis by (auto simp: b)
  next
    case (Inr a)
    obtain mp w2 where a: "a = (mp, w2)" by (cases a)
    from backup_loop_kept[of w2 X "verbose args" mp "services args"]
    have k: "environ (final (backup_loop X (verbose args) mp (services args) w2)) = environ w2"
      by (simp add: session_kept_def)
    from r Inr a have "(case backup_loop X (verbose args) mp (services args) w2 of
              Inl e \<Rightarrow> Inl e | Inr w3 \<Rightarrow> close_bucket X mp w3) = Inl (e, w')"
      by (simp add: b)
    from tail[OF _ k this] Inr a show ?thesis by simp
  qed
  have 4: "environ w' = environ w1" if r: "fetch X args w = Inl (e, w')" for e w'
  proof (cases ?ob)
    case (Inl a)
    with r oe show ?thesis by (auto simp: f)
  next
    case (Inr a)
    obtain mp w2 where a: "a = (mp, w2)" by (cases a)
    from fetch_loop_frame[of X mp "file_arg args" "services args" w2]
    have k: "environ (final (fetch_loop X mp (file_arg args) (services args) w2)) = environ w2"
      by simp
    from r Inr a have "(case fetch_loop X mp (file_arg args) (services args) w2 of
              Inl e \<Rightarrow> Inl e | Inr w3 \<Rightarrow> close_bucket X mp w3) = Inl (e, w')"
      by (simp add: f)
    from tail[OF _ k this] Inr a show ?thesis by simp
  qed
  from ec 1 2 3 4 show ?thesis by blast
qed

lemmas pipeline_defs =
  backup_def fetch_def load_secrets_def export_credentials_def set_environ_def open_bucket_def
  mount_bucket_def mkdtemp_def run_def cmd_effect_def logged_def backup_service_def xcrypt_def
  read_file_def put_file_def rmtree_def close_bucket_def unmount_bucket_def os_rmdir_def
  del_environ_def join_def basename_def tmpname_def SECRET_CFG_def X_ok_def X_rsync_fails_def
  demo_load_def secrets_doc_def w_init_def args_backup_def args_fetch_def args_fetch_missing_def
  web_def db_def Let_def

text \<open>
  The claim C1 as stated fails: rsync fails for \<^verbatim>\<open>web\<close>; \<^verbatim>\<open>backup\<close> raises and the bucket is
  still mounted on \<^verbatim>\<open>/tmp/tmp\<close>, whose directory is still there.
\<close>

theorem backup_unmount_counterexample:
  "raised (backup X_rsync_fails args_backup w_init) = Some CalledProcessError \<and>
   mounts (final (backup X_rsync_fails args_backup w_init)) = [''/tmp/tmp''] \<and>
   ''/tmp/tmp'' \<in> dirs (final (backup X_rsync_fails args_backup w_init))"
  by (simp add: pipeline_defs)

text \<open>
  The claim C7 as stated fails: the bucket holds no \<^verbatim>\<open>web/missing.txt\<close>; \<^verbatim>\<open>fetch\<close> raises and
  the key and the secret are still in the environment.
\<close>

theorem fetch_credentials_counterexample:
  "raised (fetch X_ok args_fetch_missing w_init) = Some FileNotFoundError \<and>
   environ (final (fetch X_ok args_fetch_missing w_init)) ''AWS_ACCESS_KEY_ID'' = Some ''AKIA'' \<and>
   environ (final (fetch X_ok args_fetch_missing w_init)) ''AWS_SECRET_ACCESS_KEY'' = Some ''s3cr3t''"
  by (simp add: pipeline_defs)

lemma demo_session:
  "load_secrets X_ok w_init = Inr secrets_doc"
  "raised (export_credentials secrets_doc w_init) = None"
  "raised (open_bucket X_ok False secrets_doc (final (export_credentials secrets_doc w_init))) = None"
  "tmpn (final (export_credentials secrets_doc w_init)) = 0"
  "environ (final (export_credentials secrets_doc w_init)) ''AWS_ACCESS_KEY_ID'' = Some ''AKIA''"
  by (simp_all add: pipeline_defs)

lemma demo_runs:
  "raised (backup X_ok args_backup w_init) = None"
  "raised (fetch X_ok args_fetch w_init) = None"
  "files (final (fetch X_ok args_fetch w_init)) ''report.txt'' = Some ''text''"
  by (simp_all add: pipeline_defs)

lemma returned: "raised r = None \<Longrightarrow> r = Inr (final r)"
  by (cases r) auto

text \<open>
  With every command succeeding, \<^verbatim>\<open>backup\<close> and \<^verbatim>\<open>fetch web report.txt\<close> mount the bucket on
  \<^verbatim>\<open>/tmp/tmp\<close>, return, and leave it neither mounted nor existing.
\<close>

theorem pipeline_unmounts_on_return_witness:
  "load_secrets X_ok w_init = Inr secrets_doc \<and>
   raised (export_credentials secrets_doc w_init) = None \<and>
   raised (open_bucket X_ok False secrets_doc (final (export_credentials secrets_doc w_init))) = None \<and>
   raised (backup X_ok args_backup w_init) = None \<and>
   ''/tmp/tmp'' \<notin> set (mounts (final (backup X_ok args_backup w_init))) \<and>
   ''/tmp/tmp'' \<notin> dirs (final (backup X_ok args_backup w_init)) \<and>
   raised (fetch X_ok args_fetch w_init) = None \<and>
   ''/tmp/tmp'' \<notin> set (mounts (final (fetch X_ok args_fetch w_init))) \<and>
   ''/tmp/tmp'' \<notin> dirs (final (fetch X_ok args_fetch w_init))"
proof -
  let ?w1 = "final (export_credentials secrets_doc w_init)"
  have vb: "verbose args_backup = False" "verbose args_fetch = False"
    by (simp_all add: args_backup_def args_fetch_def)
  note ls = demo_session(1)
  have ec: "export_credentials secrets_doc w_init = Inr ?w1"
    using demo_session(2) by (rule returned)
  obtain mp w2 where ob: "open_bucket X_ok False secrets_doc ?w1 = Inr (mp, w2)"
    using demo_session(3) by (cases "open_bucket X_ok False secrets_doc ?w1") auto
  from open_bucket_final(2)[OF ob] demo_session(4) have mp: "mp = ''/tmp/tmp''"
    by (simp add: tmpname_def)
  have rb: "backup X_ok args_backup w_init = Inr (final (backup X_ok args_backup w_init))"
    using demo_runs(1) by (rule returned)
  have rf: "fetch X_ok args_fetch w_init = Inr (final (fetch X_ok args_fetch w_init))"
    using demo_runs(2) by (rule returned)
  from pipeline_unmounts_on_return[of X_ok w_init secrets_doc ?w1 args_backup mp w2] ls ec ob vb rb mp
  have 1: "''/tmp/tmp'' \<notin> set (mounts (final (backup X_ok args_backup w_init)))"
    "''/tmp/tmp'' \<notin> dirs (final (backup X_ok args_backup w_init))"
    by auto
  from pipeline_unmounts_on_return[of X_ok w_init secrets_doc ?w1 args_fetch mp w2] ls ec ob vb rf mp
  have 2: "''/tmp/tmp'' \<notin> set (mounts (final (fetch X_ok args_fetch w_init)))"
    "''/tmp/tmp'' \<notin> dirs (final (fetch X_ok args_fetch w_init))"
    by auto
  from ls demo_session(2,3) demo_runs(1,2) 1 2 show ?thesis by simp
qed

text \<open>
  With every command succeeding, \<^verbatim>\<open>backup\<close> and \<^verbatim>\<open>fetch web report.txt\<close> export the key,
  return, and leave neither variable in the environment.
\<close>

theorem credentials_removed_on_return_witness:
  "load_secrets X_ok w_init = Inr secrets_doc \<and>
   raised (export_credentials secrets_doc w_init) = None \<and>
   environ (final (export_credentials secrets_doc w_init)) ''AWS_ACCESS_KEY_ID'' = Some ''AKIA'' \<and>
   raised (backup X_ok args_backup w_init) = None \<and>
   environ (final (backup X_ok args_backup w_init)) ''AWS_ACCESS_KEY_ID'' = None \<and>
   environ (final (backup X_ok args_backup w_init)) ''AWS_SECRET_ACCESS_KEY'' = None \<and>
   raised (fetch X_ok args_fetch w_init) = None \<and>
   environ (final (fetch X_ok args_fetch w_init)) ''AWS_ACCESS_KEY_ID'' = None \<and>
   environ (final (fetch X_ok args_fetch w_init)) ''AWS_SECRET_ACCESS_KEY'' = None"
proof -
  let ?w1 = "final (export_credentials secrets_doc w_init)"
  note ls = demo_session(1)
  have ec: "export_credentials secrets_doc w_init = Inr ?w1"
    using demo_session(2) by (rule returned)
  have rb: "backup X_ok args_backup w_init = Inr (final (backup X_ok args_backup w_init))"
    using demo_runs(1) by (rule returned)
  have rf: "fetch X_ok args_fetch w_init = Inr (final (fetch X_ok args_fetch w_init))"
    using demo_runs(2) by (rule returned)
  from credentials_removed_on_return[OF ls ec, of args_backup] rb
  have 1: "environ (final (backup X_ok args_backup w_init)) ''AWS_ACCESS_KEY_ID'' = None"
    "environ (final (backup X_ok args_backup w_init)) ''AWS_SECRET_ACCESS_KEY'' = None"
    by blast+
  from credentials_removed_on_return[OF ls ec, of args_fetch] rf
  have 2: "environ (final (fetch X_ok args_fetch w_init)) ''AWS_ACCESS_KEY_ID'' = None"
    "environ (final (fetch X_ok args_fetch w_init)) ''AWS_SECRET_ACCESS_KEY'' = None"
    by blast+
  from ls demo_session(2,5) demo_runs(1,2) 1 2 show ?thesis by simp
qed

end
